theory Spec2Isabelle
  imports Complex_Main
begin

section \<open>Customs valuation engine of DouaneCalc-Maroc\<close>

text \<open>
  The repository holds two versions of the component that defines
  \<^verbatim>\<open>calculateCustoms\<close>, one after the other in the source file \<^verbatim>\<open>part_001\<close>: lines 1
  to 289 and lines 291 to 624. They share the grouping by regime and by HS code and the
  formulas of an HS group, and differ in five places: the Incoterm test (\<^verbatim>\<open>CFR\<close> or
  \<^verbatim>\<open>CIF\<close> against \<^verbatim>\<open>CFR\<close> alone), the guard of the divisions (\<^verbatim>\<open>|| 1\<close> against
  \<^verbatim>\<open>> 0 ? ... : 0\<close>), the fallback HS key (\<^verbatim>\<open>VARIOUS\<close> against \<^verbatim>\<open>UNKNOWN\<close>), the freight
  rollup of a regime and two labels. The first version (constant
  \<^verbatim>\<open>ACONAGE_FIXED_MAD\<close>) carries the suffix \<open>1\<close> here, the second (constant
  \<^verbatim>\<open>ACONAGE_TOTAL_MAD\<close>) the suffix \<open>2\<close>; what the two share is defined once.

  JavaScript numbers are modelled as exact reals: rounding, \<^verbatim>\<open>NaN\<close> and the infinities
  of IEEE doubles are outside the model. Strings are lists of characters; only ASCII
  letters change under \<^verbatim>\<open>toUpperCase\<close>, which is all that a comparison with the
  literals \<^verbatim>\<open>'CFR'\<close> and \<^verbatim>\<open>'CIF'\<close> can observe on such strings. The fields of the
  inputs have the types of \<^verbatim>\<open>types.ts\<close>: a field declared optional there is an
  \<open>option\<close>, every other field is present.
\<close>

subsection \<open>Data model (\<^verbatim>\<open>types.ts\<close>, lines 626 to 694)\<close>

datatype TransportMethod = AIR | SEA | LAND

type_synonym CustomsRegime = string

record InvoiceItem =
  description :: string
  quantity :: real
  unitPrice :: real
  totalPrice :: real
  regime :: CustomsRegime
  hsCode :: string
  weightNet :: "real option"
  packagingCaisses :: "real option"
  packagingPalettes :: "real option"

record InvoiceData =
  invoiceNumber :: string
  date :: string
  currency :: string
  subtotal :: real
  fret :: real
  assurance :: real
  incoterm :: string
  totalWeightBrut :: real
  transportMethod :: TransportMethod
  originCountry :: "string option"
  items :: "InvoiceItem list"

text \<open>
  The three result records repeat field names of each other and of the inputs; the
  fields of \<^verbatim>\<open>HSCodeBreakdown\<close> carry the prefix \<open>hs_\<close>, those of \<^verbatim>\<open>RegimeResult\<close>
  the prefix \<open>rg_\<close> and those of \<^verbatim>\<open>CustomsResult\<close> the prefix \<open>res_\<close>. The optional
  fields \<^verbatim>\<open>weightNet\<close> and \<^verbatim>\<open>hsCodeBreakdown\<close> of the results are always written by
  the engine and are plain fields here.
\<close>

record HSCodeBreakdown =
  hs_hsCode :: string
  hs_description :: string
  hs_weightBrut :: real
  hs_weightNet :: real
  hs_fobValueMAD :: real
  hs_fretValueMAD :: real
  hs_assuranceValueMAD :: real
  hs_aconageValueMAD :: real
  hs_totalVAD :: real

text \<open>
  \<^verbatim>\<open>REGIME_LABELS[regime] || 'Regime Specifique'\<close> reads a plain object: for a regime
  code that names a member of \<^verbatim>\<open>Object.prototype\<close> the lookup yields that inherited
  member (a truthy value that is not a string), which \<open>Inherited\<close> records.
\<close>

datatype libelle = Libelle string | Inherited string

record RegimeResult =
  rg_regime :: string
  rg_regimeLibelle :: libelle
  rg_fobValueMAD :: real
  rg_fretValueMAD :: real
  rg_assuranceValueMAD :: real
  rg_aconageValueMAD :: real
  rg_weightBrut :: real
  rg_totalVAD :: real
  rg_hsCodeBreakdown :: "HSCodeBreakdown list"

record CustomsResult =
  res_exchangeRate :: real
  res_incoterm :: string
  res_totalFobMAD :: real
  res_totalFretMAD :: real
  res_totalAssuranceMAD :: real
  res_totalAconageMAD :: real
  res_totalWeightBrut :: real
  res_totalVAD :: real
  res_breakdown :: "RegimeResult list"

text \<open>The only exception the calculation can raise.\<close>

datatype error = TypeError

subsection \<open>JavaScript primitives used by the calculation\<close>

text \<open>\<^verbatim>\<open>x || 0\<close> on an optional number: an absent value and \<open>0\<close> both give \<open>0\<close>.\<close>

definition orZero :: "real option \<Rightarrow> real" where
  "orZero x = (case x of None \<Rightarrow> 0 | Some v \<Rightarrow> v)"

text \<open>\<^verbatim>\<open>x || 1\<close> on a number: \<open>0\<close> is falsy and is replaced by \<open>1\<close>.\<close>

definition orOne :: "real \<Rightarrow> real" where
  "orOne x = (if x = 0 then 1 else x)"

text \<open>\<^verbatim>\<open>xs.reduce((s, x) => s + f(x), 0)\<close>: a left fold from \<open>0\<close>.\<close>

definition reduceSum :: "('a \<Rightarrow> real) \<Rightarrow> 'a list \<Rightarrow> real" where
  "reduceSum f xs = foldl (\<lambda>s x. s + f x) 0 xs"

text \<open>\<^verbatim>\<open>xs.map(f)\<close> for a callback that may throw: the first exception ends the loop.\<close>

fun mapE :: "('a \<Rightarrow> error + 'b) \<Rightarrow> 'a list \<Rightarrow> error + 'b list" where
  "mapE f [] = Inr []"
| "mapE f (x # xs) =
     (case f x of
        Inl e \<Rightarrow> Inl e
      | Inr y \<Rightarrow> (case mapE f xs of Inl e \<Rightarrow> Inl e | Inr ys \<Rightarrow> Inr (y # ys)))"

definition upperChar :: "char \<Rightarrow> char" where
  "upperChar c =
     (case map_of (zip ''abcdefghijklmnopqrstuvwxyz'' ''ABCDEFGHIJKLMNOPQRSTUVWXYZ'') c of
        Some u \<Rightarrow> u
      | None \<Rightarrow> c)"

definition toUpperCase :: "string \<Rightarrow> string" where
  "toUpperCase s = map upperChar s"

text \<open>
  \<^verbatim>\<open>Array.from(new Set(xs))\<close>: the distinct elements in the order of their first
  occurrence. (\<open>remdups\<close> keeps the last occurrence instead.)
\<close>

fun setAddAll :: "'a list \<Rightarrow> 'a list \<Rightarrow> 'a list" where
  "setAddAll seen [] = seen"
| "setAddAll seen (x # xs) = setAddAll (if x \<in> set seen then seen else seen @ [x]) xs"

definition arrayFromSet :: "'a list \<Rightarrow> 'a list" where
  "arrayFromSet xs = setAddAll [] xs"

text \<open>
  The names that every plain object inherits from \<^verbatim>\<open>Object.prototype\<close>. Reading one
  of them on \<^verbatim>\<open>{}\<close> gives a truthy value that is not an array.
\<close>

definition objectPrototypeKeys :: "string list" where
  "objectPrototypeKeys =
     [''constructor'', ''hasOwnProperty'', ''isPrototypeOf'', ''propertyIsEnumerable'',
      ''toLocaleString'', ''toString'', ''valueOf'', ''__defineGetter__'',
      ''__defineSetter__'', ''__lookupGetter__'', ''__lookupSetter__'', ''__proto__'']"

text \<open>
  \<^verbatim>\<open>Object.entries\<close> lists the own keys that are array indices (canonical decimal
  numerals up to \<open>2^32 - 2\<close>) first, in ascending numeric order, and the other keys after
  them in the order of their creation. A ten-digit HS code without a leading zero and
  below that bound is such an index.
\<close>

definition digitValue :: "char \<Rightarrow> nat option" where
  "digitValue c = map_of (zip ''0123456789'' [0, 1, 2, 3, 4, 5, 6, 7, 8, 9]) c"

definition decimalValue :: "string \<Rightarrow> nat" where
  "decimalValue s = foldl (\<lambda>n c. 10 * n + (case digitValue c of None \<Rightarrow> 0 | Some v \<Rightarrow> v)) 0 s"

definition isArrayIndex :: "string \<Rightarrow> bool" where
  "isArrayIndex s =
     (case s of
        [] \<Rightarrow> False
      | c # cs \<Rightarrow>
          list_all (\<lambda>x. digitValue x \<noteq> None) s \<and> (if c = CHR ''0'' then cs = [] else True) \<and>
          decimalValue s \<le> 4294967294)"

definition objectEntries :: "(string \<times> 'v) list \<Rightarrow> (string \<times> 'v) list" where
  "objectEntries obj =
     sort_key (\<lambda>kv. decimalValue (fst kv)) (filter (\<lambda>kv. isArrayIndex (fst kv)) obj) @
     filter (\<lambda>kv. \<not> isArrayIndex (fst kv)) obj"

subsection \<open>Grouping the items of a regime by HS code\<close>

text \<open>
  \<^verbatim>\<open>hsGroups\<close> is a plain object used as a dictionary; its own properties are kept
  here in the order of their creation. One step of the \<^verbatim>\<open>forEach\<close> loop:
  \<^verbatim>\<open>
  const key = item.hsCode || fallback;
  if (!hsGroups[key]) hsGroups[key] = [];
  hsGroups[key].push(item);
  \<close>
  An own property holds an array (truthy, even when empty), so the item is appended to
  it. A key that is not an own property but is inherited from \<^verbatim>\<open>Object.prototype\<close>
  reads as a truthy member without \<^verbatim>\<open>push\<close>: the call throws a \<^verbatim>\<open>TypeError\<close>. Any other
  new key gets a fresh array. The empty HS code is falsy and gives the fallback key.
\<close>

type_synonym hsGroups = "(string \<times> InvoiceItem list) list"

definition hsKey :: "string \<Rightarrow> InvoiceItem \<Rightarrow> string" where
  "hsKey fallback item = (if hsCode item = [] then fallback else hsCode item)"

definition hsGroupsPush :: "string \<Rightarrow> hsGroups \<Rightarrow> InvoiceItem \<Rightarrow> error + hsGroups" where
  "hsGroupsPush fallback groups item =
     (let key = hsKey fallback item in
      if key \<in> set (map fst groups)
      then Inr (map (\<lambda>(k, its). if k = key then (k, its @ [item]) else (k, its)) groups)
      else if key \<in> set objectPrototypeKeys then Inl TypeError
      else Inr (groups @ [(key, [item])]))"

fun hsGroupsForEach :: "string \<Rightarrow> hsGroups \<Rightarrow> InvoiceItem list \<Rightarrow> error + hsGroups" where
  "hsGroupsForEach fallback groups [] = Inr groups"
| "hsGroupsForEach fallback groups (item # rest) =
     (case hsGroupsPush fallback groups item of
        Inl e \<Rightarrow> Inl e
      | Inr groups' \<Rightarrow> hsGroupsForEach fallback groups' rest)"

subsection \<open>The callback that values one HS group\<close>

text \<open>
  The body of \<^verbatim>\<open>Object.entries(hsGroups).map(([hsCode, items]) => ...)\<close>, the same in
  both versions. \<^verbatim>\<open>items[0].description\<close> throws on an empty array.
\<close>

definition weightHS :: "string \<Rightarrow> InvoiceItem list \<Rightarrow> real" where
  "weightHS rgm its =
     (let netWeightHS = reduceSum (\<lambda>i. orZero (weightNet i)) its in
      if rgm = ''023'' then netWeightHS
      else if rgm = ''312'' then
        (let c = reduceSum (\<lambda>i. orZero (packagingCaisses i)) its;
             p = reduceSum (\<lambda>i. orZero (packagingPalettes i)) its
         in (c * 2) + (p * 25))
      else netWeightHS)"

definition fretHSValueForVAD :: "bool \<Rightarrow> string \<Rightarrow> real \<Rightarrow> real \<Rightarrow> real \<Rightarrow> real" where
  "fretHSValueForVAD isCFR rgm fretRatioFor023_CFR globalFretRatio wHS =
     (if isCFR then (if rgm = ''023'' then fretRatioFor023_CFR * wHS else 0)
      else globalFretRatio * wHS)"

definition displayFretHS :: "bool \<Rightarrow> string \<Rightarrow> real \<Rightarrow> real \<Rightarrow> real \<Rightarrow> real" where
  "displayFretHS isCFR rgm fretRatioFor023_CFR globalFretRatio wHS =
     (if isCFR then
        (if rgm = ''023''
         then fretHSValueForVAD isCFR rgm fretRatioFor023_CFR globalFretRatio wHS
         else globalFretRatio * wHS)
      else fretHSValueForVAD isCFR rgm fretRatioFor023_CFR globalFretRatio wHS)"

definition hsCodeBreakdownOf ::
  "real \<Rightarrow> bool \<Rightarrow> real \<Rightarrow> real \<Rightarrow> real \<Rightarrow> string \<Rightarrow> string \<times> InvoiceItem list
     \<Rightarrow> error + HSCodeBreakdown" where
  "hsCodeBreakdownOf rate isCFR fretRatioFor023_CFR globalFretRatio globalAconageRatio rgm entry =
     (case entry of (code, its) \<Rightarrow>
      let fobHS = reduceSum totalPrice its * rate;
          netWeightHS = reduceSum (\<lambda>i. orZero (weightNet i)) its;
          wHS = weightHS rgm its;
          fretVAD = fretHSValueForVAD isCFR rgm fretRatioFor023_CFR globalFretRatio wHS;
          fretShown = displayFretHS isCFR rgm fretRatioFor023_CFR globalFretRatio wHS;
          aconageHS = wHS * globalAconageRatio;
          assuranceHS = (fobHS + fretVAD) * 0.005
      in (case its of
           [] \<Rightarrow> Inl TypeError
         | first # _ \<Rightarrow>
             Inr \<lparr> hs_hsCode = code,
                   hs_description = description first,
                   hs_weightBrut = wHS,
                   hs_weightNet = netWeightHS,
                   hs_fobValueMAD = fobHS,
                   hs_fretValueMAD = fretShown,
                   hs_assuranceValueMAD = assuranceHS,
                   hs_aconageValueMAD = aconageHS,
                   hs_totalVAD = fobHS + fretVAD + assuranceHS + aconageHS \<rparr>))"

text \<open>
  Lines 45 to 99 (first version) and 334 to 388 (second version): the items of one
  regime, grouped by HS code and valued group by group.
\<close>

definition regimeHsCodeBreakdown ::
  "string \<Rightarrow> real \<Rightarrow> bool \<Rightarrow> real \<Rightarrow> real \<Rightarrow> real \<Rightarrow> InvoiceItem list \<Rightarrow> string
     \<Rightarrow> error + HSCodeBreakdown list" where
  "regimeHsCodeBreakdown fallback rate isCFR fretRatioFor023_CFR globalFretRatio
       globalAconageRatio allItems rgm =
     (let regimeItems = filter (\<lambda>item. regime item = rgm) allItems in
      case hsGroupsForEach fallback [] regimeItems of
        Inl e \<Rightarrow> Inl e
      | Inr groups \<Rightarrow>
          mapE (hsCodeBreakdownOf rate isCFR fretRatioFor023_CFR globalFretRatio
                  globalAconageRatio rgm)
            (objectEntries groups))"

definition regimesFound :: "InvoiceData \<Rightarrow> string list" where
  "regimesFound d = arrayFromSet (map regime (items d))"

definition weight023Sum :: "InvoiceData \<Rightarrow> real" where
  "weight023Sum d =
     reduceSum (\<lambda>i. orZero (weightNet i)) (filter (\<lambda>i. regime i = ''023'') (items d))"

definition regimeLibelleOf :: "(string \<times> string) list \<Rightarrow> string \<Rightarrow> libelle" where
  "regimeLibelleOf labels rgm =
     (case map_of labels rgm of
        Some l \<Rightarrow> Libelle l
      | None \<Rightarrow>
          if rgm \<in> set objectPrototypeKeys then Inherited rgm
          else Libelle (''R'' @ [CHR 0xE9] @ ''gime Sp'' @ [CHR 0xE9] @ ''cifique''))"

definition totalFobMAD :: "InvoiceData \<Rightarrow> real \<Rightarrow> real" where
  "totalFobMAD d rate = subtotal d * rate"

definition totalFretMAD :: "InvoiceData \<Rightarrow> real \<Rightarrow> real" where
  "totalFretMAD d rate = fret d * rate"

subsection \<open>First version of \<^verbatim>\<open>calculateCustoms\<close> (lines 8 to 132)\<close>

definition REGIME_LABELS1 :: "(string \<times> string) list" where
  "REGIME_LABELS1 =
     [(''010'', ''Mise '' @ [CHR 0xE0] @ '' la consommation directe''),
      (''023'', ''ATPA sans paiement''),
      (''312'', ''AT d'' @ [CHR 0x27] @ ''emballages import'' @ [CHR 0xE9] @ ''s pleins''),
      (''311'', ''AT d'' @ [CHR 0x27] @ ''emballages import'' @ [CHR 0xE9] @ ''s vides''),
      (''022'', ''ATPA avec paiement''),
      (''040'', ''MAC en suite d'' @ [CHR 0x27] @ ''ATPA'')]"

definition ACONAGE_FIXED_MAD :: real where
  "ACONAGE_FIXED_MAD = 2300"

definition isCFR1 :: "InvoiceData \<Rightarrow> bool" where
  "isCFR1 d = (toUpperCase (incoterm d) = ''CFR'' \<or> toUpperCase (incoterm d) = ''CIF'')"

definition totalWeightBrut1 :: "InvoiceData \<Rightarrow> real" where
  "totalWeightBrut1 d = orOne (totalWeightBrut d)"

definition globalFretRatio1 :: "InvoiceData \<Rightarrow> real \<Rightarrow> real" where
  "globalFretRatio1 d rate = totalFretMAD d rate / totalWeightBrut1 d"

definition globalAconageRatio1 :: "InvoiceData \<Rightarrow> real" where
  "globalAconageRatio1 d = ACONAGE_FIXED_MAD / totalWeightBrut1 d"

definition weight023Total1 :: "InvoiceData \<Rightarrow> real" where
  "weight023Total1 d = orOne (weight023Sum d)"

definition fretRatioFor023_CFR1 :: "InvoiceData \<Rightarrow> real \<Rightarrow> real" where
  "fretRatioFor023_CFR1 d rate = totalFretMAD d rate / weight023Total1 d"

definition regimeResult1 :: "InvoiceData \<Rightarrow> real \<Rightarrow> string \<Rightarrow> error + RegimeResult" where
  "regimeResult1 d rate rgm =
     (case regimeHsCodeBreakdown ''VARIOUS'' rate (isCFR1 d) (fretRatioFor023_CFR1 d rate)
             (globalFretRatio1 d rate) (globalAconageRatio1 d) (items d) rgm of
        Inl e \<Rightarrow> Inl e
      | Inr hsCodeBreakdown \<Rightarrow>
          (let weightRegime = reduceSum hs_weightBrut hsCodeBreakdown;
               fobRegime = reduceSum hs_fobValueMAD hsCodeBreakdown;
               aconageRegime = reduceSum hs_aconageValueMAD hsCodeBreakdown;
               assuranceRegime = reduceSum hs_assuranceValueMAD hsCodeBreakdown;
               fretRegimeForVAD = reduceSum hs_fretValueMAD hsCodeBreakdown
           in Inr \<lparr> rg_regime = rgm,
                    rg_regimeLibelle = regimeLibelleOf REGIME_LABELS1 rgm,
                    rg_fobValueMAD = fobRegime,
                    rg_fretValueMAD = fretRegimeForVAD,
                    rg_assuranceValueMAD = assuranceRegime,
                    rg_aconageValueMAD = aconageRegime,
                    rg_weightBrut = weightRegime,
                    rg_totalVAD = reduceSum hs_totalVAD hsCodeBreakdown,
                    rg_hsCodeBreakdown = hsCodeBreakdown \<rparr>))"

text \<open>\<^verbatim>\<open>setResults(...)\<close> stores the report; the model returns it.\<close>

definition calculateCustoms1 :: "InvoiceData \<Rightarrow> real \<Rightarrow> error + CustomsResult" where
  "calculateCustoms1 d rate =
     (case mapE (regimeResult1 d rate) (regimesFound d) of
        Inl e \<Rightarrow> Inl e
      | Inr breakdown \<Rightarrow>
          Inr \<lparr> res_exchangeRate = rate,
                res_incoterm = incoterm d,
                res_totalFobMAD = totalFobMAD d rate,
                res_totalFretMAD = totalFretMAD d rate,
                res_totalAssuranceMAD = reduceSum rg_assuranceValueMAD breakdown,
                res_totalAconageMAD = reduceSum rg_aconageValueMAD breakdown,
                res_totalWeightBrut = totalWeightBrut1 d,
                res_totalVAD = reduceSum rg_totalVAD breakdown,
                res_breakdown = breakdown \<rparr>)"

subsection \<open>Second version of \<^verbatim>\<open>calculateCustoms\<close> (lines 298 to 428)\<close>

definition REGIME_LABELS2 :: "(string \<times> string) list" where
  "REGIME_LABELS2 =
     [(''010'', ''Mise '' @ [CHR 0xE0] @ '' la consommation directe''),
      (''023'', ''ATPA sans paiement''),
      (''312'', ''AT d'' @ [CHR 0x27] @ ''emballages et contenants import'' @ [CHR 0xE9] @ ''s pleins''),
      (''311'', ''AT d'' @ [CHR 0x27] @ ''emballages et contenants import'' @ [CHR 0xE9] @ ''s vides''),
      (''022'', ''ATPA avec paiement''),
      (''040'', ''MAC en suite d'' @ [CHR 0x27] @ ''ATPA'')]"

definition ACONAGE_TOTAL_MAD :: real where
  "ACONAGE_TOTAL_MAD = 2300"

definition isCFR2 :: "InvoiceData \<Rightarrow> bool" where
  "isCFR2 d = (toUpperCase (incoterm d) = ''CFR'')"

definition globalFretRatio2 :: "InvoiceData \<Rightarrow> real \<Rightarrow> real" where
  "globalFretRatio2 d rate =
     (if totalWeightBrut d > 0 then totalFretMAD d rate / totalWeightBrut d else 0)"

definition globalAconageRatio2 :: "InvoiceData \<Rightarrow> real" where
  "globalAconageRatio2 d =
     (if totalWeightBrut d > 0 then ACONAGE_TOTAL_MAD / totalWeightBrut d else 0)"

definition weight023Total2 :: "InvoiceData \<Rightarrow> real" where
  "weight023Total2 d = weight023Sum d"

definition fretRatioFor023_CFR2 :: "InvoiceData \<Rightarrow> real \<Rightarrow> real" where
  "fretRatioFor023_CFR2 d rate =
     (if weight023Total2 d > 0 then totalFretMAD d rate / weight023Total2 d else 0)"

definition regimeResult2 :: "InvoiceData \<Rightarrow> real \<Rightarrow> string \<Rightarrow> error + RegimeResult" where
  "regimeResult2 d rate rgm =
     (case regimeHsCodeBreakdown ''UNKNOWN'' rate (isCFR2 d) (fretRatioFor023_CFR2 d rate)
             (globalFretRatio2 d rate) (globalAconageRatio2 d) (items d) rgm of
        Inl e \<Rightarrow> Inl e
      | Inr hsCodeBreakdown \<Rightarrow>
          (let weightRegime = reduceSum hs_weightBrut hsCodeBreakdown;
               fobRegime = reduceSum hs_fobValueMAD hsCodeBreakdown;
               aconageRegime = reduceSum hs_aconageValueMAD hsCodeBreakdown;
               assuranceRegime = reduceSum hs_assuranceValueMAD hsCodeBreakdown;
               fretRegimeForVAD =
                 (if rgm = ''023'' \<and> isCFR2 d then totalFretMAD d rate
                  else if isCFR2 d then 0
                  else globalFretRatio2 d rate * weightRegime)
           in Inr \<lparr> rg_regime = rgm,
                    rg_regimeLibelle = regimeLibelleOf REGIME_LABELS2 rgm,
                    rg_fobValueMAD = fobRegime,
                    rg_fretValueMAD = fretRegimeForVAD,
                    rg_assuranceValueMAD = assuranceRegime,
                    rg_aconageValueMAD = aconageRegime,
                    rg_weightBrut = weightRegime,
                    rg_totalVAD = reduceSum hs_totalVAD hsCodeBreakdown,
                    rg_hsCodeBreakdown = hsCodeBreakdown \<rparr>))"

definition calculateCustoms2 :: "InvoiceData \<Rightarrow> real \<Rightarrow> error + CustomsResult" where
  "calculateCustoms2 d rate =
     (case mapE (regimeResult2 d rate) (regimesFound d) of
        Inl e \<Rightarrow> Inl e
      | Inr breakdown \<Rightarrow>
          Inr \<lparr> res_exchangeRate = rate,
                res_incoterm = incoterm d,
                res_totalFobMAD = totalFobMAD d rate,
                res_totalFretMAD = totalFretMAD d rate,
                res_totalAssuranceMAD = reduceSum rg_assuranceValueMAD breakdown,
                res_totalAconageMAD = reduceSum rg_aconageValueMAD breakdown,
                res_totalWeightBrut = totalWeightBrut d,
                res_totalVAD = reduceSum rg_totalVAD breakdown,
                res_breakdown = breakdown \<rparr>)"

subsection \<open>Notions used to state the properties\<close>

text \<open>
  The freight that a group's total valuation contains: the total minus the three other
  stored components. The callback computes it as \<^verbatim>\<open>fretHSValueForVAD\<close> and does not
  store it; the field \<^verbatim>\<open>fretValueMAD\<close> holds \<^verbatim>\<open>displayFretHS\<close>.
\<close>

definition vadFreight :: "HSCodeBreakdown \<Rightarrow> real" where
  "vadFreight h =
     hs_totalVAD h - hs_fobValueMAD h - hs_assuranceValueMAD h - hs_aconageValueMAD h"

text \<open>Every HS group of a report, paired with the code of its regime.\<close>

definition allGroups :: "CustomsResult \<Rightarrow> (string \<times> HSCodeBreakdown) list" where
  "allGroups res =
     concat (map (\<lambda>r. map (\<lambda>h. (rg_regime r, h)) (rg_hsCodeBreakdown r)) (res_breakdown res))"

text \<open>The items of an invoice that carry a given regime and fall under a given HS key.\<close>

definition groupItems :: "string \<Rightarrow> InvoiceData \<Rightarrow> string \<Rightarrow> string \<Rightarrow> InvoiceItem list" where
  "groupItems fallback d rgm code =
     filter (\<lambda>i. hsKey fallback i = code) (filter (\<lambda>item. regime item = rgm) (items d))"

text \<open>
  An invoice with the insurance amount and the quantity and unit price of every item
  blanked out. Two invoices have the same image exactly when they differ at most in
  these three inputs.
\<close>

definition eraseItem :: "InvoiceItem \<Rightarrow> InvoiceItem" where
  "eraseItem i = i\<lparr>quantity := 0, unitPrice := 0\<rparr>"

definition withoutUnusedInputs :: "InvoiceData \<Rightarrow> InvoiceData" where
  "withoutUnusedInputs d = d\<lparr>assurance := 0, items := map eraseItem (items d)\<rparr>"

text \<open>The same blanking, applied to the items held by \<^verbatim>\<open>hsGroups\<close>.\<close>

definition eraseGroups :: "hsGroups \<Rightarrow> hsGroups" where
  "eraseGroups groups = map (\<lambda>(k, its). (k, map eraseItem its)) groups"

subsection \<open>Example invoices and their reports\<close>

text \<open>
  Two lines of goods under regime 023 and one line of packaging under regime 312, which
  has no HS code. The HS code of the wine is an array index for \<^verbatim>\<open>Object.entries\<close>,
  the code of the oranges (leading zero) is not, so the wine group is listed first.
  The Incoterm, the declared gross weight and the two net weights are parameters.
\<close>

definition itemOranges :: "real option \<Rightarrow> InvoiceItem" where
  "itemOranges w =
     \<lparr> description = ''Oranges'', quantity = 100, unitPrice = 10, totalPrice = 1000,
       regime = ''023'', hsCode = ''0805100000'', weightNet = w,
       packagingCaisses = None, packagingPalettes = None \<rparr>"

definition itemWine :: "real option \<Rightarrow> InvoiceItem" where
  "itemWine w =
     \<lparr> description = ''Wine'', quantity = 200, unitPrice = 2, totalPrice = 400,
       regime = ''023'', hsCode = ''2204210000'', weightNet = w,
       packagingCaisses = None, packagingPalettes = None \<rparr>"

definition itemPallets :: InvoiceItem where
  "itemPallets =
     \<lparr> description = ''Pallets'', quantity = 12, unitPrice = 10, totalPrice = 120,
       regime = ''312'', hsCode = [], weightNet = None,
       packagingCaisses = Some 10, packagingPalettes = Some 2 \<rparr>"

definition exampleInvoice :: "string \<Rightarrow> real \<Rightarrow> real option \<Rightarrow> real option \<Rightarrow> InvoiceData" where
  "exampleInvoice inc gross netOranges netWine =
     \<lparr> invoiceNumber = ''INV-0042'', date = ''2024-03-01'', currency = ''EUR'',
       subtotal = 1400, fret = 150, assurance = 20, incoterm = inc,
       totalWeightBrut = gross, transportMethod = SEA, originCountry = None,
       items = [itemOranges netOranges, itemWine netWine, itemPallets] \<rparr>"

text \<open>The same invoice with another insurance amount and other quantities and unit prices.\<close>

definition exampleInvoiceEdited :: InvoiceData where
  "exampleInvoiceEdited =
     \<lparr> invoiceNumber = ''INV-0042'', date = ''2024-03-01'', currency = ''EUR'',
       subtotal = 1400, fret = 150, assurance = 999, incoterm = ''FOB'',
       totalWeightBrut = 1000, transportMethod = SEA, originCountry = None,
       items = [(itemOranges (Some 500))\<lparr>quantity := 1, unitPrice := 1000\<rparr>,
                itemWine (Some 250),
                itemPallets\<lparr>quantity := 0, unitPrice := 0\<rparr>] \<rparr>"

text \<open>The invoice of the end-to-end scenario of the specification.\<close>

definition scenarioItem :: InvoiceItem where
  "scenarioItem =
     \<lparr> description = ''Goods'', quantity = 10, unitPrice = 100, totalPrice = 1000,
       regime = ''023'', hsCode = ''HS1'', weightNet = Some 500,
       packagingCaisses = None, packagingPalettes = None \<rparr>"

definition scenarioInvoice :: InvoiceData where
  "scenarioInvoice =
     \<lparr> invoiceNumber = ''INV-0001'', date = ''2024-01-15'', currency = ''EUR'',
       subtotal = 1000, fret = 100, assurance = 0, incoterm = ''FOB'',
       totalWeightBrut = 500, transportMethod = SEA, originCountry = None,
       items = [scenarioItem] \<rparr>"

text \<open>
  The reports of the example invoice at the exchange rate 10: by the second version for
  the Incoterms FOB and CFR, for a declared gross weight of 0, for absent net weights
  and for a negative net weight; by the first version for FOB with a declared gross
  weight of 0, for CFR and for CIF.
\<close>

definition exampleReport2_FOB :: CustomsResult where
  "exampleReport2_FOB =
     \<lparr> res_exchangeRate = 10, res_incoterm = ''FOB'',
       res_totalFobMAD = 14000, res_totalFretMAD = 1500,
       res_totalAssuranceMAD = 82.15, res_totalAconageMAD = 1886,
       res_totalWeightBrut = 1000, res_totalVAD = 18398.15,
       res_breakdown =
        [\<lparr> rg_regime = ''023'',
           rg_regimeLibelle =
             Libelle ''ATPA sans paiement'',
           rg_fobValueMAD = 14000, rg_fretValueMAD = 1125,
           rg_assuranceValueMAD = 75.625, rg_aconageValueMAD = 1725,
           rg_weightBrut = 750, rg_totalVAD = 16925.625,
           rg_hsCodeBreakdown =
            [\<lparr> hs_hsCode = ''2204210000'', hs_description = ''Wine'',
               hs_weightBrut = 250, hs_weightNet = 250,
               hs_fobValueMAD = 4000, hs_fretValueMAD = 375,
               hs_assuranceValueMAD = 21.875, hs_aconageValueMAD = 575,
               hs_totalVAD = 4971.875 \<rparr>,
             \<lparr> hs_hsCode = ''0805100000'', hs_description = ''Oranges'',
               hs_weightBrut = 500, hs_weightNet = 500,
               hs_fobValueMAD = 10000, hs_fretValueMAD = 750,
               hs_assuranceValueMAD = 53.75, hs_aconageValueMAD = 1150,
               hs_totalVAD = 11953.75 \<rparr>] \<rparr>,
         \<lparr> rg_regime = ''312'',
           rg_regimeLibelle =
             Libelle (''AT d'' @ [CHR 0x27] @ ''emballages et contenants import'' @
             [CHR 0xE9] @ ''s pleins''),
           rg_fobValueMAD = 1200, rg_fretValueMAD = 105,
           rg_assuranceValueMAD = 6.525, rg_aconageValueMAD = 161,
           rg_weightBrut = 70, rg_totalVAD = 1472.525,
           rg_hsCodeBreakdown =
            [\<lparr> hs_hsCode = ''UNKNOWN'', hs_description = ''Pallets'',
               hs_weightBrut = 70, hs_weightNet = 0,
               hs_fobValueMAD = 1200, hs_fretValueMAD = 105,
               hs_assuranceValueMAD = 6.525, hs_aconageValueMAD = 161,
               hs_totalVAD = 1472.525 \<rparr>] \<rparr>] \<rparr>"

definition exampleReport2_CFR :: CustomsResult where
  "exampleReport2_CFR =
     \<lparr> res_exchangeRate = 10, res_incoterm = ''cfr'',
       res_totalFobMAD = 14000, res_totalFretMAD = 1500,
       res_totalAssuranceMAD = 83.5, res_totalAconageMAD = 1886,
       res_totalWeightBrut = 1000, res_totalVAD = 18669.5,
       res_breakdown =
        [\<lparr> rg_regime = ''023'',
           rg_regimeLibelle =
             Libelle ''ATPA sans paiement'',
           rg_fobValueMAD = 14000, rg_fretValueMAD = 1500,
           rg_assuranceValueMAD = 77.5, rg_aconageValueMAD = 1725,
           rg_weightBrut = 750, rg_totalVAD = 17302.5,
           rg_hsCodeBreakdown =
            [\<lparr> hs_hsCode = ''2204210000'', hs_description = ''Wine'',
               hs_weightBrut = 250, hs_weightNet = 250,
               hs_fobValueMAD = 4000, hs_fretValueMAD = 500,
               hs_assuranceValueMAD = 22.5, hs_aconageValueMAD = 575,
               hs_totalVAD = 5097.5 \<rparr>,
             \<lparr> hs_hsCode = ''0805100000'', hs_description = ''Oranges'',
               hs_weightBrut = 500, hs_weightNet = 500,
               hs_fobValueMAD = 10000, hs_fretValueMAD = 1000,
               hs_assuranceValueMAD = 55, hs_aconageValueMAD = 1150,
               hs_totalVAD = 12205 \<rparr>] \<rparr>,
         \<lparr> rg_regime = ''312'',
           rg_regimeLibelle =
             Libelle (''AT d'' @ [CHR 0x27] @ ''emballages et contenants import'' @
             [CHR 0xE9] @ ''s pleins''),
           rg_fobValueMAD = 1200, rg_fretValueMAD = 0,
           rg_assuranceValueMAD = 6, rg_aconageValueMAD = 161,
           rg_weightBrut = 70, rg_totalVAD = 1367,
           rg_hsCodeBreakdown =
            [\<lparr> hs_hsCode = ''UNKNOWN'', hs_description = ''Pallets'',
               hs_weightBrut = 70, hs_weightNet = 0,
               hs_fobValueMAD = 1200, hs_fretValueMAD = 105,
               hs_assuranceValueMAD = 6, hs_aconageValueMAD = 161,
               hs_totalVAD = 1367 \<rparr>] \<rparr>] \<rparr>"


definition exampleReport2_CFR_noNet :: CustomsResult where
  "exampleReport2_CFR_noNet =
     \<lparr> res_exchangeRate = 10, res_incoterm = ''cfr'',
       res_totalFobMAD = 14000, res_totalFretMAD = 1500,
       res_totalAssuranceMAD = 76, res_totalAconageMAD = 161,
       res_totalWeightBrut = 1000, res_totalVAD = 15437,
       res_breakdown =
        [\<lparr> rg_regime = ''023'',
           rg_regimeLibelle =
             Libelle ''ATPA sans paiement'',
           rg_fobValueMAD = 14000, rg_fretValueMAD = 1500,
           rg_assuranceValueMAD = 70, rg_aconageValueMAD = 0,
           rg_weightBrut = 0, rg_totalVAD = 14070,
           rg_hsCodeBreakdown =
            [\<lparr> hs_hsCode = ''2204210000'', hs_description = ''Wine'',
               hs_weightBrut = 0, hs_weightNet = 0,
               hs_fobValueMAD = 4000, hs_fretValueMAD = 0,
               hs_assuranceValueMAD = 20, hs_aconageValueMAD = 0,
               hs_totalVAD = 4020 \<rparr>,
             \<lparr> hs_hsCode = ''0805100000'', hs_description = ''Oranges'',
               hs_weightBrut = 0, hs_weightNet = 0,
               hs_fobValueMAD = 10000, hs_fretValueMAD = 0,
               hs_assuranceValueMAD = 50, hs_aconageValueMAD = 0,
               hs_totalVAD = 10050 \<rparr>] \<rparr>,
         \<lparr> rg_regime = ''312'',
           rg_regimeLibelle =
             Libelle (''AT d'' @ [CHR 0x27] @ ''emballages et contenants import'' @
             [CHR 0xE9] @ ''s pleins''),
           rg_fobValueMAD = 1200, rg_fretValueMAD = 0,
           rg_assuranceValueMAD = 6, rg_aconageValueMAD = 161,
           rg_weightBrut = 70, rg_totalVAD = 1367,
           rg_hsCodeBreakdown =
            [\<lparr> hs_hsCode = ''UNKNOWN'', hs_description = ''Pallets'',
               hs_weightBrut = 70, hs_weightNet = 0,
               hs_fobValueMAD = 1200, hs_fretValueMAD = 105,
               hs_assuranceValueMAD = 6, hs_aconageValueMAD = 161,
               hs_totalVAD = 1367 \<rparr>] \<rparr>] \<rparr>"

definition exampleReport2_CFR_negNet :: CustomsResult where
  "exampleReport2_CFR_negNet =
     \<lparr> res_exchangeRate = 10, res_incoterm = ''cfr'',
       res_totalFobMAD = 14000, res_totalFretMAD = 1500,
       res_totalAssuranceMAD = 76, res_totalAconageMAD = - 989,
       res_totalWeightBrut = 1000, res_totalVAD = 14287,
       res_breakdown =
        [\<lparr> rg_regime = ''023'',
           rg_regimeLibelle =
             Libelle ''ATPA sans paiement'',
           rg_fobValueMAD = 14000, rg_fretValueMAD = 1500,
           rg_assuranceValueMAD = 70, rg_aconageValueMAD = - 1150,
           rg_weightBrut = - 500, rg_totalVAD = 12920,
           rg_hsCodeBreakdown =
            [\<lparr> hs_hsCode = ''2204210000'', hs_description = ''Wine'',
               hs_weightBrut = 0, hs_weightNet = 0,
               hs_fobValueMAD = 4000, hs_fretValueMAD = 0,
               hs_assuranceValueMAD = 20, hs_aconageValueMAD = 0,
               hs_totalVAD = 4020 \<rparr>,
             \<lparr> hs_hsCode = ''0805100000'', hs_description = ''Oranges'',
               hs_weightBrut = - 500, hs_weightNet = - 500,
               hs_fobValueMAD = 10000, hs_fretValueMAD = 0,
               hs_assuranceValueMAD = 50, hs_aconageValueMAD = - 1150,
               hs_totalVAD = 8900 \<rparr>] \<rparr>,
         \<lparr> rg_regime = ''312'',
           rg_regimeLibelle =
             Libelle (''AT d'' @ [CHR 0x27] @ ''emballages et contenants import'' @
             [CHR 0xE9] @ ''s pleins''),
           rg_fobValueMAD = 1200, rg_fretValueMAD = 0,
           rg_assuranceValueMAD = 6, rg_aconageValueMAD = 161,
           rg_weightBrut = 70, rg_totalVAD = 1367,
           rg_hsCodeBreakdown =
            [\<lparr> hs_hsCode = ''UNKNOWN'', hs_description = ''Pallets'',
               hs_weightBrut = 70, hs_weightNet = 0,
               hs_fobValueMAD = 1200, hs_fretValueMAD = 105,
               hs_assuranceValueMAD = 6, hs_aconageValueMAD = 161,
               hs_totalVAD = 1367 \<rparr>] \<rparr>] \<rparr>"

definition exampleReport1_FOB_noGross :: CustomsResult where
  "exampleReport1_FOB_noGross =
     \<lparr> res_exchangeRate = 10, res_incoterm = ''FOB'',
       res_totalFobMAD = 14000, res_totalFretMAD = 1500,
       res_totalAssuranceMAD = 6226, res_totalAconageMAD = 1886000,
       res_totalWeightBrut = 1, res_totalVAD = 3137426,
       res_breakdown =
        [\<lparr> rg_regime = ''023'',
           rg_regimeLibelle =
             Libelle ''ATPA sans paiement'',
           rg_fobValueMAD = 14000, rg_fretValueMAD = 1125000,
           rg_assuranceValueMAD = 5695, rg_aconageValueMAD = 1725000,
           rg_weightBrut = 750, rg_totalVAD = 2869695,
           rg_hsCodeBreakdown =
            [\<lparr> hs_hsCode = ''2204210000'', hs_description = ''Wine'',
               hs_weightBrut = 250, hs_weightNet = 250,
               hs_fobValueMAD = 4000, hs_fretValueMAD = 375000,
               hs_assuranceValueMAD = 1895, hs_aconageValueMAD = 575000,
               hs_totalVAD = 955895 \<rparr>,
             \<lparr> hs_hsCode = ''0805100000'', hs_description = ''Oranges'',
               hs_weightBrut = 500, hs_weightNet = 500,
               hs_fobValueMAD = 10000, hs_fretValueMAD = 750000,
               hs_assuranceValueMAD = 3800, hs_aconageValueMAD = 1150000,
               hs_totalVAD = 1913800 \<rparr>] \<rparr>,
         \<lparr> rg_regime = ''312'',
           rg_regimeLibelle =
             Libelle (''AT d'' @ [CHR 0x27] @ ''emballages import'' @ [CHR 0xE9] @
             ''s pleins''),
           rg_fobValueMAD = 1200, rg_fretValueMAD = 105000,
           rg_assuranceValueMAD = 531, rg_aconageValueMAD = 161000,
           rg_weightBrut = 70, rg_totalVAD = 267731,
           rg_hsCodeBreakdown =
            [\<lparr> hs_hsCode = ''VARIOUS'', hs_description = ''Pallets'',
               hs_weightBrut = 70, hs_weightNet = 0,
               hs_fobValueMAD = 1200, hs_fretValueMAD = 105000,
               hs_assuranceValueMAD = 531, hs_aconageValueMAD = 161000,
               hs_totalVAD = 267731 \<rparr>] \<rparr>] \<rparr>"

definition exampleReport1_CFR :: CustomsResult where
  "exampleReport1_CFR =
     \<lparr> res_exchangeRate = 10, res_incoterm = ''cfr'',
       res_totalFobMAD = 14000, res_totalFretMAD = 1500,
       res_totalAssuranceMAD = 83.5, res_totalAconageMAD = 1886,
       res_totalWeightBrut = 1000, res_totalVAD = 18669.5,
       res_breakdown =
        [\<lparr> rg_regime = ''023'',
           rg_regimeLibelle =
             Libelle ''ATPA sans paiement'',
           rg_fobValueMAD = 14000, rg_fretValueMAD = 1500,
           rg_assuranceValueMAD = 77.5, rg_aconageValueMAD = 1725,
           rg_weightBrut = 750, rg_totalVAD = 17302.5,
           rg_hsCodeBreakdown =
            [\<lparr> hs_hsCode = ''2204210000'', hs_description = ''Wine'',
               hs_weightBrut = 250, hs_weightNet = 250,
               hs_fobValueMAD = 4000, hs_fretValueMAD = 500,
               hs_assuranceValueMAD = 22.5, hs_aconageValueMAD = 575,
               hs_totalVAD = 5097.5 \<rparr>,
             \<lparr> hs_hsCode = ''0805100000'', hs_description = ''Oranges'',
               hs_weightBrut = 500, hs_weightNet = 500,
               hs_fobValueMAD = 10000, hs_fretValueMAD = 1000,
               hs_assuranceValueMAD = 55, hs_aconageValueMAD = 1150,
               hs_totalVAD = 12205 \<rparr>] \<rparr>,
         \<lparr> rg_regime = ''312'',
           rg_regimeLibelle =
             Libelle (''AT d'' @ [CHR 0x27] @ ''emballages import'' @ [CHR 0xE9] @
             ''s pleins''),
           rg_fobValueMAD = 1200, rg_fretValueMAD = 105,
           rg_assuranceValueMAD = 6, rg_aconageValueMAD = 161,
           rg_weightBrut = 70, rg_totalVAD = 1367,
           rg_hsCodeBreakdown =
            [\<lparr> hs_hsCode = ''VARIOUS'', hs_description = ''Pallets'',
               hs_weightBrut = 70, hs_weightNet = 0,
               hs_fobValueMAD = 1200, hs_fretValueMAD = 105,
               hs_assuranceValueMAD = 6, hs_aconageValueMAD = 161,
               hs_totalVAD = 1367 \<rparr>] \<rparr>] \<rparr>"

definition exampleReport1_CIF :: CustomsResult where
  "exampleReport1_CIF =
     \<lparr> res_exchangeRate = 10, res_incoterm = ''CIF'',
       res_totalFobMAD = 14000, res_totalFretMAD = 1500,
       res_totalAssuranceMAD = 83.5, res_totalAconageMAD = 1886,
       res_totalWeightBrut = 1000, res_totalVAD = 18669.5,
       res_breakdown =
        [\<lparr> rg_regime = ''023'',
           rg_regimeLibelle =
             Libelle ''ATPA sans paiement'',
           rg_fobValueMAD = 14000, rg_fretValueMAD = 1500,
           rg_assuranceValueMAD = 77.5, rg_aconageValueMAD = 1725,
           rg_weightBrut = 750, rg_totalVAD = 17302.5,
           rg_hsCodeBreakdown =
            [\<lparr> hs_hsCode = ''2204210000'', hs_description = ''Wine'',
               hs_weightBrut = 250, hs_weightNet = 250,
               hs_fobValueMAD = 4000, hs_fretValueMAD = 500,
               hs_assuranceValueMAD = 22.5, hs_aconageValueMAD = 575,
               hs_totalVAD = 5097.5 \<rparr>,
             \<lparr> hs_hsCode = ''0805100000'', hs_description = ''Oranges'',
               hs_weightBrut = 500, hs_weightNet = 500,
               hs_fobValueMAD = 10000, hs_fretValueMAD = 1000,
               hs_assuranceValueMAD = 55, hs_aconageValueMAD = 1150,
               hs_totalVAD = 12205 \<rparr>] \<rparr>,
         \<lparr> rg_regime = ''312'',
           rg_regimeLibelle =
             Libelle (''AT d'' @ [CHR 0x27] @ ''emballages import'' @ [CHR 0xE9] @
             ''s pleins''),
           rg_fobValueMAD = 1200, rg_fretValueMAD = 105,
           rg_assuranceValueMAD = 6, rg_aconageValueMAD = 161,
           rg_weightBrut = 70, rg_totalVAD = 1367,
           rg_hsCodeBreakdown =
            [\<lparr> hs_hsCode = ''VARIOUS'', hs_description = ''Pallets'',
               hs_weightBrut = 70, hs_weightNet = 0,
               hs_fobValueMAD = 1200, hs_fretValueMAD = 105,
               hs_assuranceValueMAD = 6, hs_aconageValueMAD = 161,
               hs_totalVAD = 1367 \<rparr>] \<rparr>] \<rparr>"

section \<open>Properties of the model\<close>

subsection \<open>Sums and iteration\<close>

lemma foldl_add_sum_list: "foldl (\<lambda>s x. s + f x) (a::real) xs = a + sum_list (map f xs)"
  by (induction xs arbitrary: a) simp_all

lemma reduceSum_sum_list: "reduceSum f xs = sum_list (map f xs)"
  by (simp add: reduceSum_def foldl_add_sum_list)

lemma mapE_Inr_member:
  "mapE f xs = Inr ys \<Longrightarrow> y \<in> set ys \<Longrightarrow> \<exists>x \<in> set xs. f x = Inr y"
  by (induction xs arbitrary: ys) (auto split: sum.splits)

lemma mapE_defined:
  assumes "\<And>x. x \<in> set xs \<Longrightarrow> \<exists>y. f x = Inr y"
  shows "\<exists>ys. mapE f xs = Inr ys"
  using assms
proof (induction xs)
  case Nil
  then show ?case by simp
next
  case (Cons x xs)
  then obtain y where "f x = Inr y" by fastforce
  moreover from Cons obtain ys where "mapE f xs = Inr ys" by fastforce
  ultimately show ?case by simp
qed

lemma set_objectEntries: "set (objectEntries obj) = set obj"
  by (auto simp: objectEntries_def)

lemma set_setAddAll: "set (setAddAll seen xs) = set seen \<union> set xs"
  by (induction xs arbitrary: seen) auto

lemma set_arrayFromSet: "set (arrayFromSet xs) = set xs"
  by (simp add: arrayFromSet_def set_setAddAll)

lemma distinct_setAddAll: "distinct seen \<Longrightarrow> distinct (setAddAll seen xs)"
  by (induction xs arbitrary: seen) auto

lemma distinct_arrayFromSet: "distinct (arrayFromSet xs)"
  by (simp add: arrayFromSet_def distinct_setAddAll)


subsection \<open>The grouping loop\<close>

text \<open>
  After the loop every own property of \<^verbatim>\<open>hsGroups\<close> holds exactly the items seen so far
  that fall under its key, in their order, and is not empty.
\<close>

lemma hsGroupsPush_keys:
  "hsGroupsPush fb groups item = Inr groups' \<Longrightarrow>
     fst ` set groups' = insert (hsKey fb item) (fst ` set groups)"
  by (force simp: hsGroupsPush_def Let_def split: if_splits)

lemma hsGroupsPush_entry:
  assumes push: "hsGroupsPush fb groups item = Inr groups'"
    and keys: "\<And>i. i \<in> set seen \<Longrightarrow> hsKey fb i \<in> fst ` set groups"
    and ents: "\<And>k its. (k, its) \<in> set groups \<Longrightarrow> its = filter (\<lambda>i. hsKey fb i = k) seen"
    and mem: "(k, its) \<in> set groups'"
  shows "its = filter (\<lambda>i. hsKey fb i = k) (seen @ [item])"
proof (cases "hsKey fb item \<in> fst ` set groups")
  case True
  with push have g': "groups' = map (\<lambda>(k, its). if k = hsKey fb item then (k, its @ [item]) else (k, its)) groups"
    by (simp add: hsGroupsPush_def Let_def)
  with mem obtain k0 its0 where old: "(k0, its0) \<in> set groups"
    and eq: "(k, its) = (if k0 = hsKey fb item then (k0, its0 @ [item]) else (k0, its0))"
    by auto
  from ents [OF old] eq show ?thesis
    by (auto split: if_splits)
next
  case False
  with push have g': "groups' = groups @ [(hsKey fb item, [item])]"
    by (simp add: hsGroupsPush_def Let_def split: if_splits)
  show ?thesis
  proof (cases "(k, its) \<in> set groups")
    case True
    then have "k \<noteq> hsKey fb item" using False by force
    with ents [OF True] show ?thesis by simp
  next
    case notold: False
    with mem g' have kv: "k = hsKey fb item" "its = [item]" by auto
    have "filter (\<lambda>i. hsKey fb i = hsKey fb item) seen = []"
      using keys False by (simp add: filter_empty_conv) metis
    with kv show ?thesis by simp
  qed
qed

lemma hsGroupsForEach_entries:
  assumes "hsGroupsForEach fb groups rest = Inr groups'"
    and "\<And>i. i \<in> set seen \<Longrightarrow> hsKey fb i \<in> fst ` set groups"
    and "\<And>k its. (k, its) \<in> set groups \<Longrightarrow> its = filter (\<lambda>i. hsKey fb i = k) seen"
    and "(k, its) \<in> set groups'"
  shows "its = filter (\<lambda>i. hsKey fb i = k) (seen @ rest)"
  using assms
proof (induction rest arbitrary: groups seen)
  case Nil
  then show ?case by simp
next
  case (Cons item rest)
  from Cons.prems(1) obtain g1 where push: "hsGroupsPush fb groups item = Inr g1"
    and rest: "hsGroupsForEach fb g1 rest = Inr groups'"
    by (auto split: sum.splits)
  have "its = filter (\<lambda>i. hsKey fb i = k) ((seen @ [item]) @ rest)"
  proof (rule Cons.IH [OF rest _ _ Cons.prems(4)])
    fix i assume "i \<in> set (seen @ [item])"
    then show "hsKey fb i \<in> fst ` set g1"
      using Cons.prems(2) hsGroupsPush_keys [OF push] by auto
  next
    fix k' its' assume "(k', its') \<in> set g1"
    then show "its' = filter (\<lambda>i. hsKey fb i = k') (seen @ [item])"
      using hsGroupsPush_entry [OF push Cons.prems(2) Cons.prems(3)] by blast
  qed
  then show ?case by simp
qed

lemma hsGroupsForEach_keys:
  "hsGroupsForEach fb groups rest = Inr groups' \<Longrightarrow>
     fst ` set groups' = fst ` set groups \<union> hsKey fb ` set rest"
proof (induction rest arbitrary: groups)
  case Nil
  then show ?case by simp
next
  case (Cons item rest)
  then show ?case
    by (auto split: sum.splits dest!: hsGroupsPush_keys)
qed

lemma hsGroupsForEach_defined:
  assumes "\<And>i. i \<in> set rest \<Longrightarrow> hsKey fb i \<notin> set objectPrototypeKeys"
  shows "\<exists>groups'. hsGroupsForEach fb groups rest = Inr groups'"
  using assms
proof (induction rest arbitrary: groups)
  case Nil
  then show ?case by simp
next
  case (Cons item rest)
  have "\<exists>g1. hsGroupsPush fb groups item = Inr g1"
    using Cons.prems [of item] by (simp add: hsGroupsPush_def Let_def)
  then obtain g1 where "hsGroupsPush fb groups item = Inr g1" ..
  moreover from Cons obtain g2 where "hsGroupsForEach fb g1 rest = Inr g2" by fastforce
  ultimately show ?case by simp
qed

lemma hsGroupsForEach_empty_start:
  assumes "hsGroupsForEach fb [] its0 = Inr groups" and "(k, its) \<in> set groups"
  shows "its = filter (\<lambda>i. hsKey fb i = k) its0 \<and> its \<noteq> []"
proof -
  have a: "its = filter (\<lambda>i. hsKey fb i = k) ([] @ its0)"
    by (rule hsGroupsForEach_entries [OF assms(1) _ _ assms(2)]) simp_all
  from hsGroupsForEach_keys [OF assms(1)] assms(2) have "k \<in> hsKey fb ` set its0"
    by force
  with a show ?thesis by (auto simp: filter_empty_conv)
qed


subsection \<open>What a returned report contains\<close>

lemma hsCodeBreakdownOf_Inr:
  assumes "hsCodeBreakdownOf rate c r023 rg ra rgm (code, its) = Inr h"
  shows "its \<noteq> []"
    and "hs_hsCode h = code"
    and "hs_description h = description (hd its)"
    and "hs_weightBrut h = weightHS rgm its"
    and "hs_weightNet h = reduceSum (\<lambda>i. orZero (weightNet i)) its"
    and "hs_fobValueMAD h = reduceSum totalPrice its * rate"
    and "hs_fretValueMAD h = displayFretHS c rgm r023 rg (weightHS rgm its)"
    and "hs_assuranceValueMAD h =
           (reduceSum totalPrice its * rate + fretHSValueForVAD c rgm r023 rg (weightHS rgm its)) * 0.005"
    and "hs_aconageValueMAD h = weightHS rgm its * ra"
    and "hs_totalVAD h =
           reduceSum totalPrice its * rate + fretHSValueForVAD c rgm r023 rg (weightHS rgm its) +
           (reduceSum totalPrice its * rate + fretHSValueForVAD c rgm r023 rg (weightHS rgm its)) * 0.005 +
           weightHS rgm its * ra"
  using assms
  by (auto simp: hsCodeBreakdownOf_def Let_def split: list.splits)

lemma vadFreight_hsCodeBreakdownOf:
  assumes "hsCodeBreakdownOf rate c r023 rg ra rgm (code, its) = Inr h"
  shows "vadFreight h = fretHSValueForVAD c rgm r023 rg (hs_weightBrut h)"
  using hsCodeBreakdownOf_Inr [OF assms] by (simp add: vadFreight_def)

lemma hsCodeBreakdownOf_defined:
  "its \<noteq> [] \<Longrightarrow> \<exists>h. hsCodeBreakdownOf rate c r023 rg ra rgm (code, its) = Inr h"
  by (cases its) (simp_all add: hsCodeBreakdownOf_def Let_def)

lemma regimeHsCodeBreakdown_member:
  assumes run: "regimeHsCodeBreakdown fb rate c r023 rg ra all rgm = Inr hs"
    and mem: "h \<in> set hs"
  shows "\<exists>its. its = filter (\<lambda>i. hsKey fb i = hs_hsCode h) (filter (\<lambda>item. regime item = rgm) all) \<and>
           its \<noteq> [] \<and> hsCodeBreakdownOf rate c r023 rg ra rgm (hs_hsCode h, its) = Inr h"
proof -
  from run obtain groups where
    groups: "hsGroupsForEach fb [] (filter (\<lambda>item. regime item = rgm) all) = Inr groups"
    and hs: "mapE (hsCodeBreakdownOf rate c r023 rg ra rgm) (objectEntries groups) = Inr hs"
    by (auto simp: regimeHsCodeBreakdown_def Let_def split: sum.splits)
  from mapE_Inr_member [OF hs mem] obtain code its where
    ent: "(code, its) \<in> set groups" and h: "hsCodeBreakdownOf rate c r023 rg ra rgm (code, its) = Inr h"
    by (auto simp: set_objectEntries)
  from hsCodeBreakdownOf_Inr(2) [OF h] have code: "hs_hsCode h = code" .
  from hsGroupsForEach_empty_start [OF groups ent] h code show ?thesis by blast
qed

lemma regimeHsCodeBreakdown_defined:
  assumes "\<And>i. i \<in> set all \<Longrightarrow> hsKey fb i \<notin> set objectPrototypeKeys"
  shows "\<exists>hs. regimeHsCodeBreakdown fb rate c r023 rg ra all rgm = Inr hs"
proof -
  obtain groups where
    groups: "hsGroupsForEach fb [] (filter (\<lambda>item. regime item = rgm) all) = Inr groups"
    using hsGroupsForEach_defined [of "filter (\<lambda>item. regime item = rgm) all" fb "[]"] assms
    by auto
  have "\<exists>hs. mapE (hsCodeBreakdownOf rate c r023 rg ra rgm) (objectEntries groups) = Inr hs"
  proof (rule mapE_defined)
    fix e assume "e \<in> set (objectEntries groups)"
    then have "(fst e, snd e) \<in> set groups" by (simp add: set_objectEntries)
    from hsGroupsForEach_empty_start [OF groups this] have "snd e \<noteq> []" by blast
    from hsCodeBreakdownOf_defined [OF this, of rate c r023 rg ra rgm "fst e"]
    show "\<exists>h. hsCodeBreakdownOf rate c r023 rg ra rgm e = Inr h" by simp
  qed
  with groups show ?thesis by (simp add: regimeHsCodeBreakdown_def)
qed

lemma regimeResult1_Inr:
  assumes "regimeResult1 d rate rgm = Inr r"
  shows "rg_regime r = rgm"
    and "regimeHsCodeBreakdown ''VARIOUS'' rate (isCFR1 d) (fretRatioFor023_CFR1 d rate)
           (globalFretRatio1 d rate) (globalAconageRatio1 d) (items d) rgm = Inr (rg_hsCodeBreakdown r)"
    and "rg_totalVAD r = reduceSum hs_totalVAD (rg_hsCodeBreakdown r)"
    and "rg_fretValueMAD r = reduceSum hs_fretValueMAD (rg_hsCodeBreakdown r)"
    and "rg_fobValueMAD r = reduceSum hs_fobValueMAD (rg_hsCodeBreakdown r)"
    and "rg_assuranceValueMAD r = reduceSum hs_assuranceValueMAD (rg_hsCodeBreakdown r)"
    and "rg_aconageValueMAD r = reduceSum hs_aconageValueMAD (rg_hsCodeBreakdown r)"
    and "rg_weightBrut r = reduceSum hs_weightBrut (rg_hsCodeBreakdown r)"
  using assms by (auto simp: regimeResult1_def Let_def split: sum.splits)

lemma regimeResult2_Inr:
  assumes "regimeResult2 d rate rgm = Inr r"
  shows "rg_regime r = rgm"
    and "regimeHsCodeBreakdown ''UNKNOWN'' rate (isCFR2 d) (fretRatioFor023_CFR2 d rate)
           (globalFretRatio2 d rate) (globalAconageRatio2 d) (items d) rgm = Inr (rg_hsCodeBreakdown r)"
    and "rg_totalVAD r = reduceSum hs_totalVAD (rg_hsCodeBreakdown r)"
    and "rg_fretValueMAD r =
           (if rgm = ''023'' \<and> isCFR2 d then totalFretMAD d rate
            else if isCFR2 d then 0
            else globalFretRatio2 d rate * reduceSum hs_weightBrut (rg_hsCodeBreakdown r))"
    and "rg_fobValueMAD r = reduceSum hs_fobValueMAD (rg_hsCodeBreakdown r)"
    and "rg_assuranceValueMAD r = reduceSum hs_assuranceValueMAD (rg_hsCodeBreakdown r)"
    and "rg_aconageValueMAD r = reduceSum hs_aconageValueMAD (rg_hsCodeBreakdown r)"
    and "rg_weightBrut r = reduceSum hs_weightBrut (rg_hsCodeBreakdown r)"
  using assms by (auto simp: regimeResult2_def Let_def split: sum.splits)

lemma calculateCustoms1_Inr:
  assumes "calculateCustoms1 d rate = Inr res"
  shows "mapE (regimeResult1 d rate) (regimesFound d) = Inr (res_breakdown res)"
    and "res_exchangeRate res = rate"
    and "res_incoterm res = incoterm d"
    and "res_totalFobMAD res = totalFobMAD d rate"
    and "res_totalFretMAD res = totalFretMAD d rate"
    and "res_totalAssuranceMAD res = reduceSum rg_assuranceValueMAD (res_breakdown res)"
    and "res_totalAconageMAD res = reduceSum rg_aconageValueMAD (res_breakdown res)"
    and "res_totalWeightBrut res = totalWeightBrut1 d"
    and "res_totalVAD res = reduceSum rg_totalVAD (res_breakdown res)"
  using assms by (auto simp: calculateCustoms1_def split: sum.splits)

lemma calculateCustoms2_Inr:
  assumes "calculateCustoms2 d rate = Inr res"
  shows "mapE (regimeResult2 d rate) (regimesFound d) = Inr (res_breakdown res)"
    and "res_exchangeRate res = rate"
    and "res_incoterm res = incoterm d"
    and "res_totalFobMAD res = totalFobMAD d rate"
    and "res_totalFretMAD res = totalFretMAD d rate"
    and "res_totalAssuranceMAD res = reduceSum rg_assuranceValueMAD (res_breakdown res)"
    and "res_totalAconageMAD res = reduceSum rg_aconageValueMAD (res_breakdown res)"
    and "res_totalWeightBrut res = totalWeightBrut d"
    and "res_totalVAD res = reduceSum rg_totalVAD (res_breakdown res)"
  using assms by (auto simp: calculateCustoms2_def split: sum.splits)

lemma report1_regime:
  assumes "calculateCustoms1 d rate = Inr res" and "r \<in> set (res_breakdown res)"
  shows "regimeResult1 d rate (rg_regime r) = Inr r"
proof -
  from mapE_Inr_member [OF calculateCustoms1_Inr(1) [OF assms(1)] assms(2)]
  obtain rgm where "regimeResult1 d rate rgm = Inr r" by blast
  with regimeResult1_Inr(1) [OF this] show ?thesis by simp
qed

lemma report2_regime:
  assumes "calculateCustoms2 d rate = Inr res" and "r \<in> set (res_breakdown res)"
  shows "regimeResult2 d rate (rg_regime r) = Inr r"
proof -
  from mapE_Inr_member [OF calculateCustoms2_Inr(1) [OF assms(1)] assms(2)]
  obtain rgm where "regimeResult2 d rate rgm = Inr r" by blast
  with regimeResult2_Inr(1) [OF this] show ?thesis by simp
qed

lemma report1_group:
  assumes "calculateCustoms1 d rate = Inr res" and "r \<in> set (res_breakdown res)"
    and "h \<in> set (rg_hsCodeBreakdown r)"
  shows "groupItems ''VARIOUS'' d (rg_regime r) (hs_hsCode h) \<noteq> [] \<and>
         hsCodeBreakdownOf rate (isCFR1 d) (fretRatioFor023_CFR1 d rate) (globalFretRatio1 d rate)
           (globalAconageRatio1 d) (rg_regime r)
           (hs_hsCode h, groupItems ''VARIOUS'' d (rg_regime r) (hs_hsCode h)) = Inr h"
  using regimeHsCodeBreakdown_member
    [OF regimeResult1_Inr(2) [OF report1_regime [OF assms(1,2)]] assms(3)]
  by (simp add: groupItems_def)

lemma report2_group:
  assumes "calculateCustoms2 d rate = Inr res" and "r \<in> set (res_breakdown res)"
    and "h \<in> set (rg_hsCodeBreakdown r)"
  shows "groupItems ''UNKNOWN'' d (rg_regime r) (hs_hsCode h) \<noteq> [] \<and>
         hsCodeBreakdownOf rate (isCFR2 d) (fretRatioFor023_CFR2 d rate) (globalFretRatio2 d rate)
           (globalAconageRatio2 d) (rg_regime r)
           (hs_hsCode h, groupItems ''UNKNOWN'' d (rg_regime r) (hs_hsCode h)) = Inr h"
  using regimeHsCodeBreakdown_member
    [OF regimeResult2_Inr(2) [OF report2_regime [OF assms(1,2)]] assms(3)]
  by (simp add: groupItems_def)

lemma calculateCustoms1_defined:
  assumes "\<And>i. i \<in> set (items d) \<Longrightarrow> hsKey ''VARIOUS'' i \<notin> set objectPrototypeKeys"
  shows "\<exists>res. calculateCustoms1 d rate = Inr res"
proof -
  have "\<exists>rs. mapE (regimeResult1 d rate) (regimesFound d) = Inr rs"
  proof (rule mapE_defined)
    fix rgm
    from regimeHsCodeBreakdown_defined [of "items d" "''VARIOUS''", OF assms]
    obtain hs where "regimeHsCodeBreakdown ''VARIOUS'' rate (isCFR1 d) (fretRatioFor023_CFR1 d rate)
           (globalFretRatio1 d rate) (globalAconageRatio1 d) (items d) rgm = Inr hs" by blast
    then show "\<exists>r. regimeResult1 d rate rgm = Inr r"
      by (simp add: regimeResult1_def Let_def)
  qed
  then show ?thesis by (auto simp: calculateCustoms1_def)
qed

lemma calculateCustoms2_defined:
  assumes "\<And>i. i \<in> set (items d) \<Longrightarrow> hsKey ''UNKNOWN'' i \<notin> set objectPrototypeKeys"
  shows "\<exists>res. calculateCustoms2 d rate = Inr res"
proof -
  have "\<exists>rs. mapE (regimeResult2 d rate) (regimesFound d) = Inr rs"
  proof (rule mapE_defined)
    fix rgm
    from regimeHsCodeBreakdown_defined [of "items d" "''UNKNOWN''", OF assms]
    obtain hs where "regimeHsCodeBreakdown ''UNKNOWN'' rate (isCFR2 d) (fretRatioFor023_CFR2 d rate)
           (globalFretRatio2 d rate) (globalAconageRatio2 d) (items d) rgm = Inr hs" by blast
    then show "\<exists>r. regimeResult2 d rate rgm = Inr r"
      by (simp add: regimeResult2_def Let_def)
  qed
  then show ?thesis by (auto simp: calculateCustoms2_def)
qed

subsection \<open>Facts about every HS group of a report\<close>

lemma allGroups_iff:
  "(rgm, h) \<in> set (allGroups res) \<longleftrightarrow>
     (\<exists>r \<in> set (res_breakdown res). rg_regime r = rgm \<and> h \<in> set (rg_hsCodeBreakdown r))"
  by (auto simp: allGroups_def)

lemma group1:
  assumes "calculateCustoms1 d rate = Inr res" and "(rgm, h) \<in> set (allGroups res)"
  shows "hsCodeBreakdownOf rate (isCFR1 d) (fretRatioFor023_CFR1 d rate) (globalFretRatio1 d rate)
           (globalAconageRatio1 d) rgm (hs_hsCode h, groupItems ''VARIOUS'' d rgm (hs_hsCode h)) = Inr h"
  using assms report1_group [OF assms(1)] by (auto simp: allGroups_iff)

lemma group2:
  assumes "calculateCustoms2 d rate = Inr res" and "(rgm, h) \<in> set (allGroups res)"
  shows "hsCodeBreakdownOf rate (isCFR2 d) (fretRatioFor023_CFR2 d rate) (globalFretRatio2 d rate)
           (globalAconageRatio2 d) rgm (hs_hsCode h, groupItems ''UNKNOWN'' d rgm (hs_hsCode h)) = Inr h"
  using assms report2_group [OF assms(1)] by (auto simp: allGroups_iff)

lemma group_values:
  assumes "hsCodeBreakdownOf rate c r023 rg ra rgm (code, its) = Inr h"
  shows "vadFreight h = fretHSValueForVAD c rgm r023 rg (hs_weightBrut h)"
    and "hs_fretValueMAD h = displayFretHS c rgm r023 rg (hs_weightBrut h)"
    and "hs_aconageValueMAD h = hs_weightBrut h * ra"
    and "hs_assuranceValueMAD h = (hs_fobValueMAD h + vadFreight h) * 0.005"
    and "hs_totalVAD h = hs_fobValueMAD h + vadFreight h + hs_assuranceValueMAD h + hs_aconageValueMAD h"
    and "rgm = ''023'' \<Longrightarrow> hs_weightBrut h = hs_weightNet h"
  using hsCodeBreakdownOf_Inr [OF assms]
  by (simp_all add: vadFreight_def weightHS_def)

lemma sum_list_zero: "(\<And>x. x \<in> set xs \<Longrightarrow> f x = (0::real)) \<Longrightarrow> sum_list (map f xs) = 0"
  by (induction xs) simp_all

lemma cfr_groups2:
  assumes cfr: "isCFR2 d" and run: "calculateCustoms2 d rate = Inr res"
    and mem: "(rgm, h) \<in> set (allGroups res)"
  shows "rgm \<noteq> ''023'' \<Longrightarrow> vadFreight h = 0"
    and "rgm = ''023'' \<Longrightarrow> vadFreight h =
           (if 0 < weight023Sum d then totalFretMAD d rate * (hs_weightNet h / weight023Sum d) else 0)"
  using group_values(1,6) [OF group2 [OF run mem]] cfr
  by (simp_all add: fretHSValueForVAD_def fretRatioFor023_CFR2_def weight023Total2_def)

lemma cfr_groups1:
  assumes cfr: "isCFR1 d" and run: "calculateCustoms1 d rate = Inr res"
    and mem: "(rgm, h) \<in> set (allGroups res)"
  shows "rgm \<noteq> ''023'' \<Longrightarrow> vadFreight h = 0"
    and "rgm = ''023'' \<Longrightarrow> vadFreight h =
           (if weight023Sum d \<noteq> 0 then totalFretMAD d rate * (hs_weightNet h / weight023Sum d)
            else totalFretMAD d rate * hs_weightNet h)"
  using group_values(1,6) [OF group1 [OF run mem]] cfr
  by (simp_all add: fretHSValueForVAD_def fretRatioFor023_CFR1_def weight023Total1_def orOne_def)



lemma group_total_fields:
  assumes "hsCodeBreakdownOf rate c r023 rg ra rgm (code, its) = Inr h"
  shows "hs_totalVAD h =
           hs_fobValueMAD h + (if c \<and> rgm \<noteq> ''023'' then 0 else hs_fretValueMAD h) +
           hs_assuranceValueMAD h + hs_aconageValueMAD h"
  using group_values(1,2,5) [OF assms]
  by (simp add: fretHSValueForVAD_def displayFretHS_def)

lemma non_cfr_group:
  assumes "hsCodeBreakdownOf rate False r023 rg ra rgm (code, its) = Inr h"
  shows "vadFreight h = hs_fretValueMAD h \<and> hs_fretValueMAD h = rg * hs_weightBrut h"
  using group_values(1,2) [OF assms]
  by (simp add: fretHSValueForVAD_def displayFretHS_def)


subsection \<open>Blanking the inputs that are not read\<close>

lemma eraseItem_fields:
  "description (eraseItem i) = description i"
  "totalPrice (eraseItem i) = totalPrice i"
  "regime (eraseItem i) = regime i"
  "hsCode (eraseItem i) = hsCode i"
  "weightNet (eraseItem i) = weightNet i"
  "packagingCaisses (eraseItem i) = packagingCaisses i"
  "packagingPalettes (eraseItem i) = packagingPalettes i"
  "hsKey fb (eraseItem i) = hsKey fb i"
  by (simp_all add: eraseItem_def hsKey_def)

lemma withoutUnusedInputs_fields:
  "subtotal (withoutUnusedInputs d) = subtotal d"
  "fret (withoutUnusedInputs d) = fret d"
  "incoterm (withoutUnusedInputs d) = incoterm d"
  "totalWeightBrut (withoutUnusedInputs d) = totalWeightBrut d"
  "items (withoutUnusedInputs d) = map eraseItem (items d)"
  by (simp_all add: withoutUnusedInputs_def)

lemma insort_key_map_fst:
  assumes "\<And>x. f (g x) = f x"
  shows "insort_key f (g x) (map g xs) = map g (insort_key f x xs)"
  by (induction xs) (simp_all add: assms)

lemma sort_key_map_fst:
  assumes "\<And>x. f (g x) = f x"
  shows "sort_key f (map g xs) = map g (sort_key f xs)"
  by (induction xs) (simp_all add: insort_key_map_fst [of f g, OF assms])

lemma objectEntries_eraseGroups:
  "objectEntries (eraseGroups groups) = eraseGroups (objectEntries groups)"
proof -
  let ?G = "\<lambda>(k, its). (k, map eraseItem its)"
  have key: "fst (?G kv) = fst kv" for kv :: "string \<times> InvoiceItem list"
    by (simp add: case_prod_beta)
  have srt: "sort_key (\<lambda>kv. decimalValue (fst kv)) (map ?G xs) =
        map ?G (sort_key (\<lambda>kv. decimalValue (fst kv)) xs)" for xs
    by (rule sort_key_map_fst) (simp add: key)
  have flt: "filter (\<lambda>kv. P (fst kv)) (map ?G xs) = map ?G (filter (\<lambda>kv. P (fst kv)) xs)"
    for P xs
    by (induction xs) (simp_all add: case_prod_beta)
  show ?thesis
    by (simp add: objectEntries_def eraseGroups_def flt [of isArrayIndex]
        flt [of "\<lambda>k. \<not> isArrayIndex k"] srt)
qed

lemma hsGroupsPush_erase:
  "hsGroupsPush fb (eraseGroups groups) (eraseItem item) =
     (case hsGroupsPush fb groups item of Inl e \<Rightarrow> Inl e | Inr g \<Rightarrow> Inr (eraseGroups g))"
  by (auto simp: hsGroupsPush_def Let_def eraseGroups_def eraseItem_fields case_prod_beta image_iff)

lemma hsGroupsForEach_erase:
  "hsGroupsForEach fb (eraseGroups groups) (map eraseItem its) =
     (case hsGroupsForEach fb groups its of Inl e \<Rightarrow> Inl e | Inr g \<Rightarrow> Inr (eraseGroups g))"
  by (induction its arbitrary: groups) (simp_all add: hsGroupsPush_erase split: sum.splits)

lemma reduceSum_map: "reduceSum f (map g xs) = reduceSum (\<lambda>x. f (g x)) xs"
  by (simp add: reduceSum_sum_list comp_def)

lemma weightHS_erase: "weightHS rgm (map eraseItem its) = weightHS rgm its"
  by (simp add: weightHS_def Let_def reduceSum_map eraseItem_fields)

lemma hsCodeBreakdownOf_erase:
  "hsCodeBreakdownOf rate c r023 rg ra rgm (code, map eraseItem its) =
     hsCodeBreakdownOf rate c r023 rg ra rgm (code, its)"
  by (cases its)
    (simp_all add: hsCodeBreakdownOf_def Let_def weightHS_erase [of rgm "x # xs" for x xs, simplified]
      reduceSum_map [of f eraseItem "x # xs" for f x xs, simplified] eraseItem_fields)

lemma mapE_eraseGroups:
  "mapE (hsCodeBreakdownOf rate c r023 rg ra rgm) (eraseGroups ents) =
     mapE (hsCodeBreakdownOf rate c r023 rg ra rgm) ents"
  by (induction ents) (auto simp: eraseGroups_def hsCodeBreakdownOf_erase cong: sum.case_cong)

lemma regimeHsCodeBreakdown_erase:
  "regimeHsCodeBreakdown fb rate c r023 rg ra (map eraseItem all) rgm =
     regimeHsCodeBreakdown fb rate c r023 rg ra all rgm"
proof -
  have f: "filter (\<lambda>item. regime item = rgm) (map eraseItem all) =
        map eraseItem (filter (\<lambda>item. regime item = rgm) all)"
    by (simp add: filter_map comp_def eraseItem_fields)
  have e: "eraseGroups [] = []" by (simp add: eraseGroups_def)
  show ?thesis
    unfolding regimeHsCodeBreakdown_def Let_def f
    using hsGroupsForEach_erase [of fb "[]" "filter (\<lambda>item. regime item = rgm) all"]
    by (simp add: e objectEntries_eraseGroups mapE_eraseGroups split: sum.splits)
qed

lemma erase_context:
  "regimesFound (withoutUnusedInputs d) = regimesFound d"
  "weight023Sum (withoutUnusedInputs d) = weight023Sum d"
  "totalFobMAD (withoutUnusedInputs d) rate = totalFobMAD d rate"
  "totalFretMAD (withoutUnusedInputs d) rate = totalFretMAD d rate"
  "isCFR1 (withoutUnusedInputs d) = isCFR1 d"
  "isCFR2 (withoutUnusedInputs d) = isCFR2 d"
  "totalWeightBrut1 (withoutUnusedInputs d) = totalWeightBrut1 d"
  by (simp_all add: regimesFound_def weight023Sum_def totalFobMAD_def totalFretMAD_def isCFR1_def
      isCFR2_def totalWeightBrut1_def withoutUnusedInputs_fields filter_map comp_def
      eraseItem_fields reduceSum_map)

lemma erase_ratios:
  "globalFretRatio1 (withoutUnusedInputs d) rate = globalFretRatio1 d rate"
  "globalAconageRatio1 (withoutUnusedInputs d) = globalAconageRatio1 d"
  "fretRatioFor023_CFR1 (withoutUnusedInputs d) rate = fretRatioFor023_CFR1 d rate"
  "globalFretRatio2 (withoutUnusedInputs d) rate = globalFretRatio2 d rate"
  "globalAconageRatio2 (withoutUnusedInputs d) = globalAconageRatio2 d"
  "fretRatioFor023_CFR2 (withoutUnusedInputs d) rate = fretRatioFor023_CFR2 d rate"
  by (simp_all add: globalFretRatio1_def globalAconageRatio1_def fretRatioFor023_CFR1_def
      globalFretRatio2_def globalAconageRatio2_def fretRatioFor023_CFR2_def weight023Total1_def
      weight023Total2_def erase_context withoutUnusedInputs_fields)

lemma regimeResult_erase:
  "regimeResult1 (withoutUnusedInputs d) rate rgm = regimeResult1 d rate rgm"
  "regimeResult2 (withoutUnusedInputs d) rate rgm = regimeResult2 d rate rgm"
  by (simp_all add: regimeResult1_def regimeResult2_def erase_context erase_ratios
      withoutUnusedInputs_fields regimeHsCodeBreakdown_erase Let_def cong: sum.case_cong if_cong)

lemma calculateCustoms_erase:
  "calculateCustoms1 (withoutUnusedInputs d) rate = calculateCustoms1 d rate"
  "calculateCustoms2 (withoutUnusedInputs d) rate = calculateCustoms2 d rate"
proof -
  have "regimeResult1 (withoutUnusedInputs d) rate = regimeResult1 d rate"
    "regimeResult2 (withoutUnusedInputs d) rate = regimeResult2 d rate"
    by (rule ext, simp add: regimeResult_erase)+
  then show "calculateCustoms1 (withoutUnusedInputs d) rate = calculateCustoms1 d rate"
    "calculateCustoms2 (withoutUnusedInputs d) rate = calculateCustoms2 d rate"
    by (simp_all add: calculateCustoms1_def calculateCustoms2_def erase_context
        withoutUnusedInputs_fields cong: sum.case_cong)
qed

subsection \<open>The freight of a regime and of its groups\<close>

text \<open>
  The groups of a regime partition its items, so a quantity summed group by group is the
  sum over the items of the regime. The second version's freight rollup of a regime is
  the sum of the valuation-contributing freight of its groups, except for regime 023
  under CFR when the freight is not 0 and the net weight of the regime-023 items is not
  positive. The first version's rollup is the sum of the displayed freight; it is the
  sum of the valuation-contributing freight for regime 023 and whenever the Incoterm is
  neither CFR nor CIF.
\<close>

lemma hsGroupsPush_distinct:
  assumes "hsGroupsPush fb groups item = Inr groups'" and "distinct (map fst groups)"
  shows "distinct (map fst groups')"
proof (cases "hsKey fb item \<in> fst ` set groups")
  case True
  with assms(1) have "groups' = map (\<lambda>(k, its). if k = hsKey fb item then (k, its @ [item]) else (k, its)) groups"
    by (simp add: hsGroupsPush_def Let_def)
  then have "map fst groups' = map fst groups"
    by (simp add: case_prod_beta comp_def)
  with assms(2) show ?thesis by simp
next
  case False
  with assms(1) have "groups' = groups @ [(hsKey fb item, [item])]"
    by (simp add: hsGroupsPush_def Let_def split: if_splits)
  with assms(2) False show ?thesis by simp
qed

lemma sum_list_update_key:
  assumes "distinct (map fst groups)" and "key \<in> fst ` set groups"
  shows "sum_list (map (\<lambda>(k, its). sum_list (map f its))
           (map (\<lambda>(k, its). if k = key then (k, its @ [item]) else (k, its)) groups)) =
         sum_list (map (\<lambda>(k, its). sum_list (map f its)) groups) + (f item :: real)"
  using assms
proof (induction groups)
  case Nil
  then show ?case by simp
next
  case (Cons g groups)
  obtain k its where g: "g = (k, its)" by (cases g)
  show ?case
  proof (cases "k = key")
    case True
    with Cons.prems g have "key \<notin> fst ` set groups" by auto
    then have "map (\<lambda>(k, its). if k = key then (k, its @ [item]) else (k, its)) groups = groups"
      by (induction groups) auto
    with True g show ?thesis by simp
  next
    case False
    with Cons g show ?thesis by auto
  qed
qed

lemma hsGroupsPush_sum:
  assumes "hsGroupsPush fb groups item = Inr groups'" and "distinct (map fst groups)"
  shows "sum_list (map (\<lambda>(k, its). sum_list (map f its)) groups') =
         sum_list (map (\<lambda>(k, its). sum_list (map f its)) groups) + (f item :: real)"
proof (cases "hsKey fb item \<in> fst ` set groups")
  case True
  with assms(1) have "groups' = map (\<lambda>(k, its). if k = hsKey fb item then (k, its @ [item]) else (k, its)) groups"
    by (simp add: hsGroupsPush_def Let_def)
  with sum_list_update_key [OF assms(2) True] show ?thesis by simp
next
  case False
  with assms(1) have "groups' = groups @ [(hsKey fb item, [item])]"
    by (simp add: hsGroupsPush_def Let_def split: if_splits)
  then show ?thesis by simp
qed

lemma hsGroupsForEach_sum:
  assumes "hsGroupsForEach fb groups rest = Inr groups'" and "distinct (map fst groups)"
  shows "sum_list (map (\<lambda>(k, its). sum_list (map f its)) groups') =
         sum_list (map (\<lambda>(k, its). sum_list (map f its)) groups) + (sum_list (map f rest) :: real)"
  using assms
proof (induction rest arbitrary: groups)
  case Nil
  then show ?case by simp
next
  case (Cons item rest)
  from Cons.prems(1) obtain g1 where push: "hsGroupsPush fb groups item = Inr g1"
    and rest: "hsGroupsForEach fb g1 rest = Inr groups'"
    by (auto split: sum.splits)
  from Cons.IH [OF rest hsGroupsPush_distinct [OF push Cons.prems(2)]]
    hsGroupsPush_sum [OF push Cons.prems(2)]
  show ?case by simp
qed

lemma sum_list_insort_key:
  "sum_list (map F (insort_key k x xs)) = (F x :: real) + sum_list (map F xs)"
  by (induction xs) simp_all

lemma sum_list_sort_key: "sum_list (map F (sort_key k xs)) = (sum_list (map F xs) :: real)"
  by (induction xs) (simp_all add: sum_list_insort_key)

lemma sum_list_filter_split:
  "sum_list (map F (filter P xs)) + sum_list (map F (filter (\<lambda>x. \<not> P x) xs)) =
     (sum_list (map F xs) :: real)"
  by (induction xs) simp_all

lemma sum_list_objectEntries:
  "sum_list (map F (objectEntries obj)) = (sum_list (map F obj) :: real)"
  by (simp add: objectEntries_def sum_list_sort_key sum_list_filter_split)

lemma mapE_sum:
  assumes "mapE f xs = Inr ys" and "\<And>x y. f x = Inr y \<Longrightarrow> G y = (H x :: real)"
  shows "sum_list (map G ys) = sum_list (map H xs)"
  using assms
  by (induction xs arbitrary: ys) (auto split: sum.splits)

lemma regimeHsCodeBreakdown_weight023:
  assumes "regimeHsCodeBreakdown fb rate c r023 rg ra all ''023'' = Inr hs"
  shows "sum_list (map hs_weightBrut hs) =
         sum_list (map (\<lambda>i. orZero (weightNet i)) (filter (\<lambda>item. regime item = ''023'') all))"
proof -
  from assms obtain groups where
    groups: "hsGroupsForEach fb [] (filter (\<lambda>item. regime item = ''023'') all) = Inr groups"
    and hs: "mapE (hsCodeBreakdownOf rate c r023 rg ra ''023'') (objectEntries groups) = Inr hs"
    by (auto simp: regimeHsCodeBreakdown_def Let_def split: sum.splits)
  have "sum_list (map hs_weightBrut hs) =
        sum_list (map (\<lambda>(k, its). sum_list (map (\<lambda>i. orZero (weightNet i)) its)) (objectEntries groups))"
  proof (rule mapE_sum [OF hs])
    fix e h assume "hsCodeBreakdownOf rate c r023 rg ra ''023'' e = Inr h"
    then have "hsCodeBreakdownOf rate c r023 rg ra ''023'' (fst e, snd e) = Inr h" by simp
    from hsCodeBreakdownOf_Inr(4) [OF this]
    show "hs_weightBrut h = (case e of (k, its) \<Rightarrow> sum_list (map (\<lambda>i. orZero (weightNet i)) its))"
      by (simp add: weightHS_def reduceSum_sum_list case_prod_beta)
  qed
  also have "\<dots> = sum_list (map (\<lambda>(k, its). sum_list (map (\<lambda>i. orZero (weightNet i)) its)) groups)"
    by (rule sum_list_objectEntries)
  also have "\<dots> = sum_list (map (\<lambda>i. orZero (weightNet i)) (filter (\<lambda>item. regime item = ''023'') all))"
    using hsGroupsForEach_sum [OF groups, of "\<lambda>i. orZero (weightNet i)"] by simp
  finally show ?thesis .
qed

lemma regime_vadFreight_sum:
  assumes "regimeHsCodeBreakdown fb rate c r023 rg ra all rgm = Inr hs"
  shows "sum_list (map vadFreight hs) =
           (if c then (if rgm = ''023'' then r023 * sum_list (map hs_weightBrut hs) else 0)
            else rg * sum_list (map hs_weightBrut hs))"
proof -
  have "vadFreight h = fretHSValueForVAD c rgm r023 rg (hs_weightBrut h)" if "h \<in> set hs" for h
    using regimeHsCodeBreakdown_member [OF assms that] vadFreight_hsCodeBreakdownOf by blast
  then have "sum_list (map vadFreight hs) =
      sum_list (map (\<lambda>h. fretHSValueForVAD c rgm r023 rg (hs_weightBrut h)) hs)"
    by (simp cong: map_cong)
  also have "\<dots> = (if c then (if rgm = ''023'' then r023 * sum_list (map hs_weightBrut hs) else 0)
            else rg * sum_list (map hs_weightBrut hs))"
    by (simp add: fretHSValueForVAD_def sum_list_const_mult)
  finally show ?thesis .
qed

lemma regime_freight_rollup2:
  assumes run: "calculateCustoms2 d rate = Inr res" and r: "r \<in> set (res_breakdown res)"
    and ok: "isCFR2 d \<and> rg_regime r = ''023'' \<Longrightarrow> 0 < weight023Sum d \<or> totalFretMAD d rate = 0"
  shows "rg_fretValueMAD r = sum_list (map vadFreight (rg_hsCodeBreakdown r))"
proof -
  note rr = regimeResult2_Inr [OF report2_regime [OF run r]]
  note s = regime_vadFreight_sum [OF rr(2)]
  show ?thesis
  proof (cases "isCFR2 d \<and> rg_regime r = ''023''")
    case True
    then have w: "sum_list (map hs_weightBrut (rg_hsCodeBreakdown r)) = weight023Sum d"
      using regimeHsCodeBreakdown_weight023 [of "''UNKNOWN''"] rr(2)
      by (simp add: weight023Sum_def reduceSum_sum_list)
    from ok [OF True] True show ?thesis
      using rr(4) s w
      by (auto simp: fretRatioFor023_CFR2_def weight023Total2_def)
  next
    case False
    then show ?thesis
      using rr(4) s by (auto simp: reduceSum_sum_list)
  qed
qed

lemma regime_freight_rollup1:
  assumes run: "calculateCustoms1 d rate = Inr res" and r: "r \<in> set (res_breakdown res)"
  shows "rg_fretValueMAD r = sum_list (map hs_fretValueMAD (rg_hsCodeBreakdown r))"
    and "\<not> (isCFR1 d \<and> rg_regime r \<noteq> ''023'') \<Longrightarrow>
           rg_fretValueMAD r = sum_list (map vadFreight (rg_hsCodeBreakdown r))"
proof -
  note rr = regimeResult1_Inr [OF report1_regime [OF run r]]
  show a: "rg_fretValueMAD r = sum_list (map hs_fretValueMAD (rg_hsCodeBreakdown r))"
    using rr(4) by (simp add: reduceSum_sum_list)
  assume n: "\<not> (isCFR1 d \<and> rg_regime r \<noteq> ''023'')"
  have "hs_fretValueMAD h = vadFreight h" if "h \<in> set (rg_hsCodeBreakdown r)" for h
  proof -
    from regimeHsCodeBreakdown_member [OF rr(2) that] obtain its where
      "hsCodeBreakdownOf rate (isCFR1 d) (fretRatioFor023_CFR1 d rate) (globalFretRatio1 d rate)
         (globalAconageRatio1 d) (rg_regime r) (hs_hsCode h, its) = Inr h" by blast
    from group_values(1,2) [OF this] n show ?thesis
      by (auto simp: fretHSValueForVAD_def displayFretHS_def)
  qed
  then have "map hs_fretValueMAD (rg_hsCodeBreakdown r) = map vadFreight (rg_hsCodeBreakdown r)"
    by simp
  with a show "rg_fretValueMAD r = sum_list (map vadFreight (rg_hsCodeBreakdown r))" by simp
qed

lemma cfr_freight_all_attributed2:
  assumes run: "calculateCustoms2 d rate = Inr res" and cfr: "isCFR2 d"
    and pos: "0 < weight023Sum d" and r: "r \<in> set (res_breakdown res)" and rgm: "rg_regime r = ''023''"
  shows "sum_list (map vadFreight (rg_hsCodeBreakdown r)) = totalFretMAD d rate"
  using regime_freight_rollup2 [OF run r] regimeResult2_Inr(4) [OF report2_regime [OF run r]]
    cfr pos rgm by simp

subsection \<open>Running the example invoices\<close>

lemma example_fields:
  "subtotal (exampleInvoice inc gross wo ww) = 1400"
  "fret (exampleInvoice inc gross wo ww) = 150"
  "incoterm (exampleInvoice inc gross wo ww) = inc"
  "totalWeightBrut (exampleInvoice inc gross wo ww) = gross"
  by (simp_all add: exampleInvoice_def)

lemma example_regimesFound:
  "regimesFound (exampleInvoice inc gross wo ww) = [''023'', ''312'']"
  by (simp add: regimesFound_def arrayFromSet_def exampleInvoice_def itemOranges_def
      itemWine_def itemPallets_def)

lemma example_filter:
  "filter (\<lambda>item. regime item = ''023'') (items (exampleInvoice inc gross wo ww)) =
     [itemOranges wo, itemWine ww]"
  "filter (\<lambda>item. regime item = ''312'') (items (exampleInvoice inc gross wo ww)) =
     [itemPallets]"
  by (simp_all add: exampleInvoice_def itemOranges_def itemWine_def itemPallets_def)

lemma example_weight023Sum:
  "weight023Sum (exampleInvoice inc gross wo ww) = orZero wo + orZero ww"
  unfolding weight023Sum_def example_filter
  by (simp add: reduceSum_def itemOranges_def itemWine_def)

lemma example_hsKey:
  "hsKey fb (itemOranges w) = ''0805100000''"
  "hsKey fb (itemWine w) = ''2204210000''"
  "hsKey fb itemPallets = fb"
  by (simp_all add: hsKey_def itemOranges_def itemWine_def itemPallets_def)

lemma example_forEach023:
  "hsGroupsForEach fb [] [itemOranges wo, itemWine ww] =
     Inr [(''0805100000'', [itemOranges wo]), (''2204210000'', [itemWine ww])]"
  by (simp add: hsGroupsPush_def example_hsKey objectPrototypeKeys_def)

lemma example_forEach312:
  "hsGroupsForEach ''VARIOUS'' [] [itemPallets] = Inr [(''VARIOUS'', [itemPallets])]"
  "hsGroupsForEach ''UNKNOWN'' [] [itemPallets] = Inr [(''UNKNOWN'', [itemPallets])]"
  by (simp_all add: hsGroupsPush_def example_hsKey objectPrototypeKeys_def)

lemma example_isArrayIndex:
  "isArrayIndex ''2204210000''" "\<not> isArrayIndex ''0805100000''"
  "\<not> isArrayIndex ''VARIOUS''" "\<not> isArrayIndex ''UNKNOWN''" "\<not> isArrayIndex ''HS1''"
  by (simp_all add: isArrayIndex_def digitValue_def decimalValue_def)

lemma example_objectEntries:
  "objectEntries [(''0805100000'', x), (''2204210000'', y)] =
     [(''2204210000'', y), (''0805100000'', x)]"
  "objectEntries [(''VARIOUS'', z)] = [(''VARIOUS'', z)]"
  "objectEntries [(''UNKNOWN'', z)] = [(''UNKNOWN'', z)]"
  "objectEntries [(''HS1'', z)] = [(''HS1'', z)]"
  by (simp_all add: objectEntries_def example_isArrayIndex)

lemma example_groups023:
  "regimeHsCodeBreakdown fb rate c r023 rg ra (items (exampleInvoice inc gross wo ww)) ''023'' =
     mapE (hsCodeBreakdownOf rate c r023 rg ra ''023'')
       [(''2204210000'', [itemWine ww]), (''0805100000'', [itemOranges wo])]"
  unfolding regimeHsCodeBreakdown_def Let_def example_filter example_forEach023
  by (simp add: example_objectEntries)

lemma example_groups312:
  "regimeHsCodeBreakdown ''VARIOUS'' rate c r023 rg ra
       (items (exampleInvoice inc gross wo ww)) ''312'' =
     mapE (hsCodeBreakdownOf rate c r023 rg ra ''312'') [(''VARIOUS'', [itemPallets])]"
  "regimeHsCodeBreakdown ''UNKNOWN'' rate c r023 rg ra
       (items (exampleInvoice inc gross wo ww)) ''312'' =
     mapE (hsCodeBreakdownOf rate c r023 rg ra ''312'') [(''UNKNOWN'', [itemPallets])]"
  unfolding regimeHsCodeBreakdown_def Let_def example_filter example_forEach312
  by (simp_all add: example_objectEntries)

lemma example_hsOranges:
  "hsCodeBreakdownOf rate c r023 rg ra ''023'' (code, [itemOranges w]) =
     Inr \<lparr> hs_hsCode = code, hs_description = ''Oranges'', hs_weightBrut = orZero w,
           hs_weightNet = orZero w, hs_fobValueMAD = 1000 * rate,
           hs_fretValueMAD = displayFretHS c ''023'' r023 rg (orZero w),
           hs_assuranceValueMAD =
             (1000 * rate + fretHSValueForVAD c ''023'' r023 rg (orZero w)) * 0.005,
           hs_aconageValueMAD = orZero w * ra,
           hs_totalVAD =
             1000 * rate + fretHSValueForVAD c ''023'' r023 rg (orZero w) +
             (1000 * rate + fretHSValueForVAD c ''023'' r023 rg (orZero w)) * 0.005 +
             orZero w * ra \<rparr>"
  by (simp add: hsCodeBreakdownOf_def weightHS_def reduceSum_def itemOranges_def Let_def)

lemma example_hsWine:
  "hsCodeBreakdownOf rate c r023 rg ra ''023'' (code, [itemWine w]) =
     Inr \<lparr> hs_hsCode = code, hs_description = ''Wine'', hs_weightBrut = orZero w,
           hs_weightNet = orZero w, hs_fobValueMAD = 400 * rate,
           hs_fretValueMAD = displayFretHS c ''023'' r023 rg (orZero w),
           hs_assuranceValueMAD =
             (400 * rate + fretHSValueForVAD c ''023'' r023 rg (orZero w)) * 0.005,
           hs_aconageValueMAD = orZero w * ra,
           hs_totalVAD =
             400 * rate + fretHSValueForVAD c ''023'' r023 rg (orZero w) +
             (400 * rate + fretHSValueForVAD c ''023'' r023 rg (orZero w)) * 0.005 +
             orZero w * ra \<rparr>"
  by (simp add: hsCodeBreakdownOf_def weightHS_def reduceSum_def itemWine_def Let_def)

lemma example_hsPallets:
  "hsCodeBreakdownOf rate c r023 rg ra ''312'' (code, [itemPallets]) =
     Inr \<lparr> hs_hsCode = code, hs_description = ''Pallets'', hs_weightBrut = 70,
           hs_weightNet = 0, hs_fobValueMAD = 120 * rate,
           hs_fretValueMAD = displayFretHS c ''312'' r023 rg 70,
           hs_assuranceValueMAD = (120 * rate + fretHSValueForVAD c ''312'' r023 rg 70) * 0.005,
           hs_aconageValueMAD = 70 * ra,
           hs_totalVAD =
             120 * rate + fretHSValueForVAD c ''312'' r023 rg 70 +
             (120 * rate + fretHSValueForVAD c ''312'' r023 rg 70) * 0.005 + 70 * ra \<rparr>"
  by (simp add: hsCodeBreakdownOf_def weightHS_def reduceSum_def orZero_def itemPallets_def
      Let_def)

lemma example_toUpperCase:
  "toUpperCase ''FOB'' = ''FOB''" "toUpperCase ''cfr'' = ''CFR''"
  "toUpperCase ''CIF'' = ''CIF''"
  by (simp_all add: toUpperCase_def upperChar_def)

lemmas example_eval =
  example_regimesFound example_groups023 example_groups312 example_hsOranges example_hsWine
  example_hsPallets example_fields example_toUpperCase example_weight023Sum reduceSum_def
  totalFretMAD_def totalFobMAD_def fretHSValueForVAD_def displayFretHS_def orZero_def
  regimeLibelleOf_def

lemmas version1_defs =
  calculateCustoms1_def regimeResult1_def isCFR1_def totalWeightBrut1_def globalFretRatio1_def
  globalAconageRatio1_def weight023Total1_def fretRatioFor023_CFR1_def ACONAGE_FIXED_MAD_def
  REGIME_LABELS1_def orOne_def

lemmas version2_defs =
  calculateCustoms2_def regimeResult2_def isCFR2_def globalFretRatio2_def
  globalAconageRatio2_def weight023Total2_def fretRatioFor023_CFR2_def ACONAGE_TOTAL_MAD_def
  REGIME_LABELS2_def



lemma run_exampleReport2_FOB:
  "calculateCustoms2 (exampleInvoice ''FOB'' 1000 (Some 500) (Some 250)) 10 =
       Inr exampleReport2_FOB"
  by (simp add: version2_defs example_eval exampleReport2_FOB_def)

lemma run_exampleReport2_CFR:
  "calculateCustoms2 (exampleInvoice ''cfr'' 1000 (Some 500) (Some 250)) 10 =
       Inr exampleReport2_CFR"
  by (simp add: version2_defs example_eval exampleReport2_CFR_def)


lemma run_exampleReport2_CFR_noNet:
  "calculateCustoms2 (exampleInvoice ''cfr'' 1000 None None) 10 = Inr exampleReport2_CFR_noNet"
  by (simp add: version2_defs example_eval exampleReport2_CFR_noNet_def)

lemma run_exampleReport2_CFR_negNet:
  "calculateCustoms2 (exampleInvoice ''cfr'' 1000 (Some (- 500)) None) 10 =
       Inr exampleReport2_CFR_negNet"
  by (simp add: version2_defs example_eval exampleReport2_CFR_negNet_def)

lemma run_exampleReport1_FOB_noGross:
  "calculateCustoms1 (exampleInvoice ''FOB'' 0 (Some 500) (Some 250)) 10 =
       Inr exampleReport1_FOB_noGross"
  by (simp add: version1_defs example_eval exampleReport1_FOB_noGross_def)

lemma run_exampleReport1_CFR:
  "calculateCustoms1 (exampleInvoice ''cfr'' 1000 (Some 500) (Some 250)) 10 =
       Inr exampleReport1_CFR"
  by (simp add: version1_defs example_eval exampleReport1_CFR_def)

lemma run_exampleReport1_CIF:
  "calculateCustoms1 (exampleInvoice ''CIF'' 1000 (Some 500) (Some 250)) 10 =
       Inr exampleReport1_CIF"
  by (simp add: version1_defs example_eval exampleReport1_CIF_def)

section \<open>The claims of the specification\<close>

text \<open>
  A report exists whenever no item falls under an HS key inherited from
  \<^verbatim>\<open>Object.prototype\<close> (lemmas
  \<open>calculateCustoms1_defined\<close> and
  \<open>calculateCustoms2_defined\<close>); the statements below are about the reports
  that the two versions return.
\<close>

subsection \<open>C1: additivity\<close>

text \<open>
  Claim C1. For every invoice and exchange rate, the grand total valuation of the report
  is the sum of the total valuations of its regimes, and the total valuation of every
  regime of the report is the sum of the total valuations of its HS groups. This holds
  for both versions.
\<close>

theorem total_valuation_additivity:
  assumes "calculateCustoms1 d rate = Inr res \<or> calculateCustoms2 d rate = Inr res"
  shows "res_totalVAD res = sum_list (map rg_totalVAD (res_breakdown res)) \<and>
         (\<forall>r \<in> set (res_breakdown res).
            rg_totalVAD r = sum_list (map hs_totalVAD (rg_hsCodeBreakdown r)))"
  using assms
proof
  assume run: "calculateCustoms1 d rate = Inr res"
  show ?thesis
    using calculateCustoms1_Inr(9) [OF run] regimeResult1_Inr(3) [OF report1_regime [OF run]]
    by (simp add: reduceSum_sum_list)
next
  assume run: "calculateCustoms2 d rate = Inr res"
  show ?thesis
    using calculateCustoms2_Inr(9) [OF run] regimeResult2_Inr(3) [OF report2_regime [OF run]]
    by (simp add: reduceSum_sum_list)
qed

theorem total_valuation_additivity_witness:
  "calculateCustoms2 (exampleInvoice ''FOB'' 1000 (Some 500) (Some 250)) 10 =
       Inr exampleReport2_FOB \<and>
   res_totalVAD exampleReport2_FOB = 18398.15 \<and>
   map rg_totalVAD (res_breakdown exampleReport2_FOB) = [16925.625, 1472.525] \<and>
   map (\<lambda>r. map hs_totalVAD (rg_hsCodeBreakdown r)) (res_breakdown exampleReport2_FOB) =
     [[4971.875, 11953.75], [1472.525]] \<and>
   res_totalVAD exampleReport2_FOB = sum_list (map rg_totalVAD (res_breakdown exampleReport2_FOB)) \<and>
   map rg_totalVAD (res_breakdown exampleReport2_FOB) =
     map (\<lambda>r. sum_list (map hs_totalVAD (rg_hsCodeBreakdown r))) (res_breakdown exampleReport2_FOB) \<and>
   calculateCustoms1 (exampleInvoice ''FOB'' 0 (Some 500) (Some 250)) 10 =
        Inr exampleReport1_FOB_noGross \<and>
   res_totalVAD exampleReport1_FOB_noGross =
     sum_list (map rg_totalVAD (res_breakdown exampleReport1_FOB_noGross)) \<and>
   map rg_totalVAD (res_breakdown exampleReport1_FOB_noGross) =
     map (\<lambda>r. sum_list (map hs_totalVAD (rg_hsCodeBreakdown r)))
       (res_breakdown exampleReport1_FOB_noGross)"
  using total_valuation_additivity [OF disjI2 [OF run_exampleReport2_FOB]]
    total_valuation_additivity [OF disjI1 [OF run_exampleReport1_FOB_noGross]]
  by (simp add: run_exampleReport2_FOB run_exampleReport1_FOB_noGross exampleReport2_FOB_def
      exampleReport1_FOB_noGross_def)

subsection \<open>C2: freight under CFR\<close>

text \<open>
  Claim C2, in the form that holds. For every invoice whose Incoterm is CFR (in any
  letter case), the valuation-contributing freight of the HS groups of all regimes other
  than 023 sums to exactly 0. In the second version the valuation-contributing freight
  of every regime-023 group is the total freight in MAD times the group's share of the
  total net weight of the regime-023 items when that total is positive, and 0 when it is
  not. In the first version it is that share of the freight when the total is not 0, and
  the total freight in MAD times the group's net weight (the total replaced by 1) when
  it is 0. When the total is positive the regime-023 groups of the second version
  receive the whole freight between them (lemma
  \<open>cfr_freight_all_attributed2\<close>).
\<close>

theorem cfr_freight_apportionment:
  assumes "toUpperCase (incoterm d) = ''CFR''"
  shows "(calculateCustoms2 d rate = Inr res2 \<longrightarrow>
            sum_list (map (\<lambda>(rgm, h). vadFreight h)
              (filter (\<lambda>(rgm, h). rgm \<noteq> ''023'') (allGroups res2))) = 0 \<and>
            (\<forall>(rgm, h) \<in> set (allGroups res2). rgm = ''023'' \<longrightarrow>
               vadFreight h =
                 (if 0 < weight023Sum d
                  then totalFretMAD d rate * (hs_weightNet h / weight023Sum d) else 0))) \<and>
         (calculateCustoms1 d rate = Inr res1 \<longrightarrow>
            sum_list (map (\<lambda>(rgm, h). vadFreight h)
              (filter (\<lambda>(rgm, h). rgm \<noteq> ''023'') (allGroups res1))) = 0 \<and>
            (\<forall>(rgm, h) \<in> set (allGroups res1). rgm = ''023'' \<longrightarrow>
               vadFreight h =
                 (if weight023Sum d \<noteq> 0
                  then totalFretMAD d rate * (hs_weightNet h / weight023Sum d)
                  else totalFretMAD d rate * hs_weightNet h)))"
proof (intro conjI impI)
  assume run: "calculateCustoms2 d rate = Inr res2"
  from assms have cfr: "isCFR2 d" by (simp add: isCFR2_def)
  show "sum_list (map (\<lambda>(rgm, h). vadFreight h)
          (filter (\<lambda>(rgm, h). rgm \<noteq> ''023'') (allGroups res2))) = 0"
    by (rule sum_list_zero) (auto dest: cfr_groups2(1) [OF cfr run])
  show "\<forall>(rgm, h) \<in> set (allGroups res2). rgm = ''023'' \<longrightarrow>
          vadFreight h =
            (if 0 < weight023Sum d
             then totalFretMAD d rate * (hs_weightNet h / weight023Sum d) else 0)"
    using cfr_groups2(2) [OF cfr run] by blast
next
  assume run: "calculateCustoms1 d rate = Inr res1"
  from assms have cfr: "isCFR1 d" by (simp add: isCFR1_def)
  show "sum_list (map (\<lambda>(rgm, h). vadFreight h)
          (filter (\<lambda>(rgm, h). rgm \<noteq> ''023'') (allGroups res1))) = 0"
    by (rule sum_list_zero) (auto dest: cfr_groups1(1) [OF cfr run])
  show "\<forall>(rgm, h) \<in> set (allGroups res1). rgm = ''023'' \<longrightarrow>
          vadFreight h =
            (if weight023Sum d \<noteq> 0
             then totalFretMAD d rate * (hs_weightNet h / weight023Sum d)
             else totalFretMAD d rate * hs_weightNet h)"
    using cfr_groups1(2) [OF cfr run] by blast
qed

theorem cfr_freight_apportionment_witness:
  "toUpperCase (incoterm (exampleInvoice ''cfr'' 1000 (Some 500) (Some 250))) = ''CFR'' \<and>
   calculateCustoms2 (exampleInvoice ''cfr'' 1000 (Some 500) (Some 250)) 10 =
        Inr exampleReport2_CFR \<and>
   calculateCustoms1 (exampleInvoice ''cfr'' 1000 (Some 500) (Some 250)) 10 =
        Inr exampleReport1_CFR \<and>
   weight023Sum (exampleInvoice ''cfr'' 1000 (Some 500) (Some 250)) = 750 \<and>
   totalFretMAD (exampleInvoice ''cfr'' 1000 (Some 500) (Some 250)) 10 = 1500 \<and>
   map (\<lambda>(rgm, h). (rgm, hs_weightNet h, vadFreight h)) (allGroups exampleReport2_CFR) =
     [(''023'', 250, 500), (''023'', 500, 1000), (''312'', 0, 0)] \<and>
   map (\<lambda>(rgm, h). (rgm, hs_weightNet h, vadFreight h)) (allGroups exampleReport1_CFR) =
     [(''023'', 250, 500), (''023'', 500, 1000), (''312'', 0, 0)] \<and>
   (500::real) = 1500 * (250 / 750) \<and> (1000::real) = 1500 * (500 / 750)"
  using cfr_freight_apportionment [of "exampleInvoice ''cfr'' 1000 (Some 500) (Some 250)" 10
        exampleReport2_CFR exampleReport1_CFR]
  by (simp add: run_exampleReport2_CFR run_exampleReport1_CFR exampleReport2_CFR_def
      exampleReport1_CFR_def example_fields example_toUpperCase example_weight023Sum
      totalFretMAD_def allGroups_def vadFreight_def orZero_def)

text \<open>
  The claim as stated, without the case distinction, fails in the second version. With a
  negative net weight on the oranges and none on the wine the total net weight of regime
  023 is \<open>-500\<close>; the oranges hold the whole of it, so the claim gives them
  the whole freight of 1500, and the code gives them 0. With no net weight on either
  line the total is 0, no share exists, and no group receives any of the 1500 of
  freight.
\<close>

theorem cfr_freight_share_counterexample:
  "toUpperCase (incoterm (exampleInvoice ''cfr'' 1000 (Some (- 500)) None)) = ''CFR'' \<and>
   calculateCustoms2 (exampleInvoice ''cfr'' 1000 (Some (- 500)) None) 10 =
        Inr exampleReport2_CFR_negNet \<and>
   weight023Sum (exampleInvoice ''cfr'' 1000 (Some (- 500)) None) = - 500 \<and>
   map (\<lambda>(rgm, h). (rgm, hs_hsCode h, vadFreight h,
          totalFretMAD (exampleInvoice ''cfr'' 1000 (Some (- 500)) None) 10 *
            (hs_weightNet h / weight023Sum (exampleInvoice ''cfr'' 1000 (Some (- 500)) None))))
     (allGroups exampleReport2_CFR_negNet) =
     [(''023'', ''2204210000'', 0, 0), (''023'', ''0805100000'', 0, 1500),
      (''312'', ''UNKNOWN'', 0, 0)] \<and>
   calculateCustoms2 (exampleInvoice ''cfr'' 1000 None None) 10 =
        Inr exampleReport2_CFR_noNet \<and>
   weight023Sum (exampleInvoice ''cfr'' 1000 None None) = 0 \<and>
   res_totalFretMAD exampleReport2_CFR_noNet = 1500 \<and>
   map (\<lambda>(rgm, h). vadFreight h) (allGroups exampleReport2_CFR_noNet) = [0, 0, 0]"
  by (simp add: run_exampleReport2_CFR_negNet run_exampleReport2_CFR_noNet
      exampleReport2_CFR_negNet_def exampleReport2_CFR_noNet_def example_fields
      example_toUpperCase example_weight023Sum totalFretMAD_def allGroups_def vadFreight_def
      orZero_def)

subsection \<open>C3: a declared gross weight of 0\<close>




subsection \<open>C4: the rollup of the report\<close>




subsection \<open>C5: the freight rollup of a regime\<close>

text \<open>
  Claim C5 says that the freight value of every regime is the sum of the
  valuation-contributing freight of its HS groups, and is 0 under CFR for every regime
  other than 023. Neither version keeps it on every invoice. The first version sums the
  displayed freight into the variable \<^verbatim>\<open>fretRegimeForVAD\<close> (lemma
  \<open>regime_freight_rollup1\<close>): under CFR the packaging regime 312 of the
  example reports 105 of freight although its group contributes 0 to the valuation. The
  second version keeps the claim (lemma \<open>regime_freight_rollup2\<close>) except in
  one case: under CFR it assigns the whole freight to regime 023 also when the net
  weight of the regime-023 items is not positive and no group received any of it. Each
  row below is (regime, freight of the regime, sum of the valuation-contributing freight
  of its groups, sum of the displayed freight of its groups), first for the first
  version on the CFR example, then for the second version on the CFR example without net
  weights.
\<close>

theorem regime_freight_rollup_failing_inputs:
  "toUpperCase (incoterm (exampleInvoice ''cfr'' 1000 (Some 500) (Some 250))) = ''CFR'' \<and>
   calculateCustoms1 (exampleInvoice ''cfr'' 1000 (Some 500) (Some 250)) 10 =
        Inr exampleReport1_CFR \<and>
   map (\<lambda>r. (rg_regime r, rg_fretValueMAD r,
          sum_list (map vadFreight (rg_hsCodeBreakdown r)),
          sum_list (map hs_fretValueMAD (rg_hsCodeBreakdown r))))
     (res_breakdown exampleReport1_CFR) =
     [(''023'', 1500, 1500, 1500), (''312'', 105, 0, 105)] \<and>
   calculateCustoms2 (exampleInvoice ''cfr'' 1000 None None) 10 =
        Inr exampleReport2_CFR_noNet \<and>
   map (\<lambda>r. (rg_regime r, rg_fretValueMAD r,
          sum_list (map vadFreight (rg_hsCodeBreakdown r)),
          sum_list (map hs_fretValueMAD (rg_hsCodeBreakdown r))))
     (res_breakdown exampleReport2_CFR_noNet) =
     [(''023'', 1500, 0, 0), (''312'', 0, 0, 105)]"
  by (simp add: run_exampleReport1_CFR run_exampleReport2_CFR_noNet exampleReport1_CFR_def
      exampleReport2_CFR_noNet_def example_fields example_toUpperCase vadFreight_def)

subsection \<open>C6: the total of an HS group\<close>

text \<open>
  Claim C6, in the form that holds. For every invoice, exchange rate and HS group of the
  report, the stored total valuation is the stored FOB value plus the
  valuation-contributing freight plus the stored insurance plus the stored handling. The
  valuation-contributing freight is the stored (displayed) freight, except for the
  groups of regimes other than 023 when the version treats the Incoterm as CFR (CFR in
  the second version, CFR or CIF in the first): there it is 0, and the stored freight is
  for display only and is not part of the total.
\<close>

theorem group_total_components:
  "(calculateCustoms2 d rate = Inr res2 \<longrightarrow>
      (\<forall>(rgm, h) \<in> set (allGroups res2).
         hs_totalVAD h =
           hs_fobValueMAD h + (if isCFR2 d \<and> rgm \<noteq> ''023'' then 0 else hs_fretValueMAD h) +
           hs_assuranceValueMAD h + hs_aconageValueMAD h)) \<and>
   (calculateCustoms1 d rate = Inr res1 \<longrightarrow>
      (\<forall>(rgm, h) \<in> set (allGroups res1).
         hs_totalVAD h =
           hs_fobValueMAD h + (if isCFR1 d \<and> rgm \<noteq> ''023'' then 0 else hs_fretValueMAD h) +
           hs_assuranceValueMAD h + hs_aconageValueMAD h))"
  using group_total_fields [OF group2] group_total_fields [OF group1] by blast

theorem group_total_components_witness:
  "calculateCustoms2 (exampleInvoice ''cfr'' 1000 (Some 500) (Some 250)) 10 =
       Inr exampleReport2_CFR \<and>
   isCFR2 (exampleInvoice ''cfr'' 1000 (Some 500) (Some 250)) \<and>
   map (\<lambda>(rgm, h). (rgm, hs_totalVAD h,
          hs_fobValueMAD h + (if rgm \<noteq> ''023'' then 0 else hs_fretValueMAD h) +
          hs_assuranceValueMAD h + hs_aconageValueMAD h))
     (allGroups exampleReport2_CFR) =
     [(''023'', 5097.5, 5097.5), (''023'', 12205, 12205), (''312'', 1367, 1367)] \<and>
   calculateCustoms1 (exampleInvoice ''FOB'' 0 (Some 500) (Some 250)) 10 =
        Inr exampleReport1_FOB_noGross \<and>
   \<not> isCFR1 (exampleInvoice ''FOB'' 0 (Some 500) (Some 250)) \<and>
   map (\<lambda>(rgm, h). (hs_totalVAD h,
          hs_fobValueMAD h + hs_fretValueMAD h + hs_assuranceValueMAD h + hs_aconageValueMAD h))
     (allGroups exampleReport1_FOB_noGross) =
     [(955895, 955895), (1913800, 1913800), (267731, 267731)]"
  using group_total_components [of "exampleInvoice ''cfr'' 1000 (Some 500) (Some 250)" 10
        exampleReport2_CFR]
    group_total_components [of "exampleInvoice ''FOB'' 0 (Some 500) (Some 250)" 10
      _ exampleReport1_FOB_noGross]
  by (simp add: run_exampleReport2_CFR run_exampleReport1_FOB_noGross exampleReport2_CFR_def
      exampleReport1_FOB_noGross_def example_fields example_toUpperCase isCFR1_def isCFR2_def
      allGroups_def)

text \<open>
  The claim as stated fails: under CFR the packaging group of regime 312 stores a
  displayed freight of 105 that its total of 1367 does not contain. Each row is (regime,
  stored total, sum of the four stored fields).
\<close>

theorem group_total_stored_fields_counterexample:
  "calculateCustoms2 (exampleInvoice ''cfr'' 1000 (Some 500) (Some 250)) 10 =
       Inr exampleReport2_CFR \<and>
   map (\<lambda>(rgm, h). (rgm, hs_totalVAD h,
          hs_fobValueMAD h + hs_fretValueMAD h + hs_assuranceValueMAD h + hs_aconageValueMAD h))
     (allGroups exampleReport2_CFR) =
     [(''023'', 5097.5, 5097.5), (''023'', 12205, 12205), (''312'', 1367, 1472)]"
  by (simp add: run_exampleReport2_CFR exampleReport2_CFR_def allGroups_def)

subsection \<open>C7: freight under the other Incoterms\<close>

text \<open>
  Claim C7, in the form that holds. In the second version, for every invoice whose
  Incoterm is not CFR (CIF, EXW, FOB or any other value), the valuation-contributing
  freight of every HS group equals its displayed freight, which is the global
  freight-per-kilogram ratio times the gross weight of the group. In the first version
  the same holds for every invoice whose Incoterm is neither CFR nor CIF; that version
  treats CIF as CFR.
\<close>

theorem non_cfr_freight:
  "(toUpperCase (incoterm d) \<noteq> ''CFR'' \<and> calculateCustoms2 d rate = Inr res2 \<longrightarrow>
      (\<forall>(rgm, h) \<in> set (allGroups res2).
         vadFreight h = hs_fretValueMAD h \<and>
         hs_fretValueMAD h = globalFretRatio2 d rate * hs_weightBrut h)) \<and>
   (toUpperCase (incoterm d) \<noteq> ''CFR'' \<and> toUpperCase (incoterm d) \<noteq> ''CIF'' \<and>
    calculateCustoms1 d rate = Inr res1 \<longrightarrow>
      (\<forall>(rgm, h) \<in> set (allGroups res1).
         vadFreight h = hs_fretValueMAD h \<and>
         hs_fretValueMAD h = globalFretRatio1 d rate * hs_weightBrut h))"
proof (intro conjI impI)
  assume a: "toUpperCase (incoterm d) \<noteq> ''CFR'' \<and> calculateCustoms2 d rate = Inr res2"
  then have c: "isCFR2 d = False" by (simp add: isCFR2_def)
  from a show "\<forall>(rgm, h) \<in> set (allGroups res2).
         vadFreight h = hs_fretValueMAD h \<and>
         hs_fretValueMAD h = globalFretRatio2 d rate * hs_weightBrut h"
    using non_cfr_group [OF group2 [of d rate res2, unfolded c]] by blast
next
  assume a: "toUpperCase (incoterm d) \<noteq> ''CFR'' \<and> toUpperCase (incoterm d) \<noteq> ''CIF'' \<and>
    calculateCustoms1 d rate = Inr res1"
  then have c: "isCFR1 d = False" by (simp add: isCFR1_def)
  from a show "\<forall>(rgm, h) \<in> set (allGroups res1).
         vadFreight h = hs_fretValueMAD h \<and>
         hs_fretValueMAD h = globalFretRatio1 d rate * hs_weightBrut h"
    using non_cfr_group [OF group1 [of d rate res1, unfolded c]] by blast
qed

theorem non_cfr_freight_witness:
  "toUpperCase (incoterm (exampleInvoice ''FOB'' 1000 (Some 500) (Some 250))) \<noteq> ''CFR'' \<and>
   toUpperCase (incoterm (exampleInvoice ''FOB'' 1000 (Some 500) (Some 250))) \<noteq> ''CIF'' \<and>
   calculateCustoms2 (exampleInvoice ''FOB'' 1000 (Some 500) (Some 250)) 10 =
        Inr exampleReport2_FOB \<and>
   globalFretRatio2 (exampleInvoice ''FOB'' 1000 (Some 500) (Some 250)) 10 = 1.5 \<and>
   map (\<lambda>(rgm, h). (rgm, vadFreight h, hs_fretValueMAD h, 1.5 * hs_weightBrut h))
     (allGroups exampleReport2_FOB) =
     [(''023'', 375, 375, 375), (''023'', 750, 750, 750), (''312'', 105, 105, 105)] \<and>
   calculateCustoms1 (exampleInvoice ''FOB'' 0 (Some 500) (Some 250)) 10 =
        Inr exampleReport1_FOB_noGross \<and>
   globalFretRatio1 (exampleInvoice ''FOB'' 0 (Some 500) (Some 250)) 10 = 1500 \<and>
   map (\<lambda>(rgm, h). (rgm, vadFreight h, hs_fretValueMAD h, 1500 * hs_weightBrut h))
     (allGroups exampleReport1_FOB_noGross) =
     [(''023'', 375000, 375000, 375000), (''023'', 750000, 750000, 750000),
      (''312'', 105000, 105000, 105000)]"
  using non_cfr_freight [of "exampleInvoice ''FOB'' 1000 (Some 500) (Some 250)" 10
        exampleReport2_FOB]
    non_cfr_freight [of "exampleInvoice ''FOB'' 0 (Some 500) (Some 250)" 10
      _ exampleReport1_FOB_noGross]
  by (simp add: run_exampleReport2_FOB run_exampleReport1_FOB_noGross exampleReport2_FOB_def
      exampleReport1_FOB_noGross_def example_fields example_toUpperCase globalFretRatio2_def
      globalFretRatio1_def totalWeightBrut1_def orOne_def totalFretMAD_def allGroups_def
      vadFreight_def)

text \<open>
  The claim as stated names CIF among the Incoterms it covers, and fails for CIF in the
  first version: the packaging group of regime 312 displays 105 of freight and
  contributes 0, and the regime-023 groups carry the regime-023 ratio, not the global
  one. Each row is (regime, valuation-contributing freight, displayed freight, global
  ratio times gross weight).
\<close>

theorem cif_freight_counterexample:
  "toUpperCase (incoterm (exampleInvoice ''CIF'' 1000 (Some 500) (Some 250))) \<noteq> ''CFR'' \<and>
   calculateCustoms1 (exampleInvoice ''CIF'' 1000 (Some 500) (Some 250)) 10 =
        Inr exampleReport1_CIF \<and>
   globalFretRatio1 (exampleInvoice ''CIF'' 1000 (Some 500) (Some 250)) 10 = 1.5 \<and>
   map (\<lambda>(rgm, h). (rgm, vadFreight h, hs_fretValueMAD h, 1.5 * hs_weightBrut h))
     (allGroups exampleReport1_CIF) =
     [(''023'', 500, 500, 375), (''023'', 1000, 1000, 750), (''312'', 0, 105, 105)]"
  by (simp add: run_exampleReport1_CIF exampleReport1_CIF_def example_fields
      example_toUpperCase globalFretRatio1_def totalWeightBrut1_def orOne_def totalFretMAD_def
      allGroups_def vadFreight_def)

subsection \<open>C8: the weight of packaging\<close>

text \<open>
  Claim C8. For every HS group of regime 312, the gross weight of the group is the total
  box count of the items of the group times 2 plus their total pallet count times 25, an
  absent count being 0. The items of the group are the items of the invoice with regime
  312 and the HS key of the group. This holds for both versions; with 10 boxes and 2
  pallets the gross weight is 70.
\<close>

theorem packaging_weight_formula:
  assumes "calculateCustoms1 d rate = Inr res \<and> fb = ''VARIOUS'' \<or>
           calculateCustoms2 d rate = Inr res \<and> fb = ''UNKNOWN''"
    and "(''312'', h) \<in> set (allGroups res)"
  shows "hs_weightBrut h =
           sum_list (map (\<lambda>i. orZero (packagingCaisses i)) (groupItems fb d ''312'' (hs_hsCode h))) * 2 +
           sum_list (map (\<lambda>i. orZero (packagingPalettes i)) (groupItems fb d ''312'' (hs_hsCode h))) * 25"
proof -
  from assms obtain c r023 rg ra where
    "hsCodeBreakdownOf rate c r023 rg ra ''312'' (hs_hsCode h, groupItems fb d ''312'' (hs_hsCode h)) = Inr h"
    using group1 group2 by blast
  from hsCodeBreakdownOf_Inr(4) [OF this] show ?thesis
    by (simp add: weightHS_def reduceSum_sum_list)
qed

theorem packaging_weight_formula_witness:
  "calculateCustoms2 (exampleInvoice ''FOB'' 1000 (Some 500) (Some 250)) 10 =
       Inr exampleReport2_FOB \<and>
   allGroups exampleReport2_FOB ! 2 = (''312'', snd (allGroups exampleReport2_FOB ! 2)) \<and>
   hs_hsCode (snd (allGroups exampleReport2_FOB ! 2)) = ''UNKNOWN'' \<and>
   groupItems ''UNKNOWN'' (exampleInvoice ''FOB'' 1000 (Some 500) (Some 250)) ''312'' ''UNKNOWN'' = [itemPallets] \<and>
   packagingCaisses itemPallets = Some 10 \<and> packagingPalettes itemPallets = Some 2 \<and>
   hs_weightBrut (snd (allGroups exampleReport2_FOB ! 2)) = 70 \<and>
   calculateCustoms1 (exampleInvoice ''FOB'' 0 (Some 500) (Some 250)) 10 =
        Inr exampleReport1_FOB_noGross \<and>
   hs_hsCode (snd (allGroups exampleReport1_FOB_noGross ! 2)) = ''VARIOUS'' \<and>
   hs_weightBrut (snd (allGroups exampleReport1_FOB_noGross ! 2)) = 70"
proof -
  have its: "groupItems ''UNKNOWN'' (exampleInvoice ''FOB'' 1000 (Some 500) (Some 250)) ''312'' ''UNKNOWN'' = [itemPallets]"
    unfolding groupItems_def example_filter by (simp add: example_hsKey)
  have counts: "packagingCaisses itemPallets = Some 10 \<and> packagingPalettes itemPallets = Some 2"
    by (simp add: itemPallets_def)
  from packaging_weight_formula [of "exampleInvoice ''FOB'' 1000 (Some 500) (Some 250)" 10 exampleReport2_FOB "''UNKNOWN''"
      "snd (allGroups exampleReport2_FOB ! 2)"]
    packaging_weight_formula [of "exampleInvoice ''FOB'' 0 (Some 500) (Some 250)" 10
      exampleReport1_FOB_noGross "''VARIOUS''"
      "snd (allGroups exampleReport1_FOB_noGross ! 2)"]
    its counts
  show ?thesis
    by (simp add: run_exampleReport2_FOB run_exampleReport1_FOB_noGross exampleReport2_FOB_def
        exampleReport1_FOB_noGross_def allGroups_def)
qed
subsection \<open>C9: the end-to-end scenario\<close>

lemma scenario_groups:
  assumes "items d = [i]" and "regime i = ''023''" and "hsCode i = ''HS1''"
  shows "regimesFound d = [''023'']"
    and "regimeHsCodeBreakdown fb rate c r023 rg ra (items d) ''023'' =
           mapE (hsCodeBreakdownOf rate c r023 rg ra ''023'') [(''HS1'', [i])]"
proof -
  show "regimesFound d = [''023'']"
    using assms by (simp add: regimesFound_def arrayFromSet_def)
  have flt: "filter (\<lambda>item. regime item = ''023'') (items d) = [i]"
    using assms by simp
  have key: "hsKey fb i = ''HS1''"
    using assms by (simp add: hsKey_def)
  have grp: "hsGroupsForEach fb [] [i] = Inr [(''HS1'', [i])]"
    by (simp add: hsGroupsPush_def key objectPrototypeKeys_def)
  show "regimeHsCodeBreakdown fb rate c r023 rg ra (items d) ''023'' =
           mapE (hsCodeBreakdownOf rate c r023 rg ra ''023'') [(''HS1'', [i])]"
    unfolding regimeHsCodeBreakdown_def Let_def flt grp
    by (simp add: example_objectEntries)
qed

lemma scenario_group:
  assumes "weightNet i = Some 500" and "totalPrice i = 1000"
  shows "hsCodeBreakdownOf rate False r023 rg ra ''023'' (''HS1'', [i]) =
     Inr \<lparr> hs_hsCode = ''HS1'', hs_description = description i, hs_weightBrut = 500,
           hs_weightNet = 500, hs_fobValueMAD = 1000 * rate, hs_fretValueMAD = rg * 500,
           hs_assuranceValueMAD = (1000 * rate + rg * 500) * 0.005,
           hs_aconageValueMAD = 500 * ra,
           hs_totalVAD =
             1000 * rate + rg * 500 + (1000 * rate + rg * 500) * 0.005 + 500 * ra \<rparr>"
  using assms
  by (simp add: hsCodeBreakdownOf_def weightHS_def reduceSum_def orZero_def Let_def
      fretHSValueForVAD_def displayFretHS_def)

lemma scenario_ratios:
  assumes "fret d = 100" and "incoterm d = ''FOB''" and "totalWeightBrut d = 500"
  shows "isCFR1 d = False" and "isCFR2 d = False"
    and "globalFretRatio1 d 11 = 2.2" and "globalFretRatio2 d 11 = 2.2"
    and "globalAconageRatio1 d = 4.6" and "globalAconageRatio2 d = 4.6"
  using assms
  by (simp_all add: isCFR1_def isCFR2_def example_toUpperCase globalFretRatio1_def
      globalFretRatio2_def globalAconageRatio1_def globalAconageRatio2_def totalWeightBrut1_def
      orOne_def totalFretMAD_def ACONAGE_FIXED_MAD_def ACONAGE_TOTAL_MAD_def)

text \<open>
  Claim C9. For an invoice with subtotal 1000, freight 100, Incoterm FOB, total gross
  weight 500 and a single item of regime 023 with net weight 500, total price 1000 and
  HS code HS1, at the exchange rate 11, the freight-per-kilogram ratio is 2.2 and the
  report holds one regime with one group: FOB 11000, freight 1100, insurance 60.5,
  handling 2300, total valuation 14460.5, which is also the grand total valuation. Both
  versions return this report, whatever the other fields of the invoice and of the item
  are.
\<close>

theorem end_to_end_scenario:
  assumes "subtotal d = 1000" and "fret d = 100" and "incoterm d = ''FOB''"
    and "totalWeightBrut d = 500" and "items d = [i]"
    and "regime i = ''023''" and "hsCode i = ''HS1''"
    and "weightNet i = Some 500" and "totalPrice i = 1000"
  shows "calculateCustoms2 d 11 =
           Inr \<lparr> res_exchangeRate = 11, res_incoterm = ''FOB'',
                 res_totalFobMAD = 11000, res_totalFretMAD = 1100,
                 res_totalAssuranceMAD = 60.5, res_totalAconageMAD = 2300,
                 res_totalWeightBrut = 500, res_totalVAD = 14460.5,
                 res_breakdown =
                  [\<lparr> rg_regime = ''023'',
                     rg_regimeLibelle = Libelle ''ATPA sans paiement'',
                     rg_fobValueMAD = 11000, rg_fretValueMAD = 1100,
                     rg_assuranceValueMAD = 60.5, rg_aconageValueMAD = 2300,
                     rg_weightBrut = 500, rg_totalVAD = 14460.5,
                     rg_hsCodeBreakdown =
                      [\<lparr> hs_hsCode = ''HS1'', hs_description = description i,
                         hs_weightBrut = 500, hs_weightNet = 500,
                         hs_fobValueMAD = 11000, hs_fretValueMAD = 1100,
                         hs_assuranceValueMAD = 60.5, hs_aconageValueMAD = 2300,
                         hs_totalVAD = 14460.5 \<rparr>] \<rparr>] \<rparr> \<and>
         calculateCustoms1 d 11 = calculateCustoms2 d 11 \<and>
         globalFretRatio2 d 11 = 2.2 \<and> globalFretRatio1 d 11 = 2.2"
proof -
  note grp = scenario_groups [OF assms(5,6,7)]
  note rat = scenario_ratios [OF assms(2,3,4)]
  note hs = scenario_group [OF assms(8,9)]
  have two: "calculateCustoms2 d 11 =
           Inr \<lparr> res_exchangeRate = 11, res_incoterm = ''FOB'',
                 res_totalFobMAD = 11000, res_totalFretMAD = 1100,
                 res_totalAssuranceMAD = 60.5, res_totalAconageMAD = 2300,
                 res_totalWeightBrut = 500, res_totalVAD = 14460.5,
                 res_breakdown =
                  [\<lparr> rg_regime = ''023'',
                     rg_regimeLibelle = Libelle ''ATPA sans paiement'',
                     rg_fobValueMAD = 11000, rg_fretValueMAD = 1100,
                     rg_assuranceValueMAD = 60.5, rg_aconageValueMAD = 2300,
                     rg_weightBrut = 500, rg_totalVAD = 14460.5,
                     rg_hsCodeBreakdown =
                      [\<lparr> hs_hsCode = ''HS1'', hs_description = description i,
                         hs_weightBrut = 500, hs_weightNet = 500,
                         hs_fobValueMAD = 11000, hs_fretValueMAD = 1100,
                         hs_assuranceValueMAD = 60.5, hs_aconageValueMAD = 2300,
                         hs_totalVAD = 14460.5 \<rparr>] \<rparr>] \<rparr>"
    using assms(1,2,3,4)
    by (simp add: calculateCustoms2_def regimeResult2_def grp rat hs reduceSum_def
        totalFobMAD_def totalFretMAD_def regimeLibelleOf_def REGIME_LABELS2_def)
  have one: "calculateCustoms1 d 11 =
           Inr \<lparr> res_exchangeRate = 11, res_incoterm = ''FOB'',
                 res_totalFobMAD = 11000, res_totalFretMAD = 1100,
                 res_totalAssuranceMAD = 60.5, res_totalAconageMAD = 2300,
                 res_totalWeightBrut = 500, res_totalVAD = 14460.5,
                 res_breakdown =
                  [\<lparr> rg_regime = ''023'',
                     rg_regimeLibelle = Libelle ''ATPA sans paiement'',
                     rg_fobValueMAD = 11000, rg_fretValueMAD = 1100,
                     rg_assuranceValueMAD = 60.5, rg_aconageValueMAD = 2300,
                     rg_weightBrut = 500, rg_totalVAD = 14460.5,
                     rg_hsCodeBreakdown =
                      [\<lparr> hs_hsCode = ''HS1'', hs_description = description i,
                         hs_weightBrut = 500, hs_weightNet = 500,
                         hs_fobValueMAD = 11000, hs_fretValueMAD = 1100,
                         hs_assuranceValueMAD = 60.5, hs_aconageValueMAD = 2300,
                         hs_totalVAD = 14460.5 \<rparr>] \<rparr>] \<rparr>"
    using assms(1,2,3,4)
    by (simp add: calculateCustoms1_def regimeResult1_def grp rat hs reduceSum_def
        totalFobMAD_def totalFretMAD_def regimeLibelleOf_def REGIME_LABELS1_def
        totalWeightBrut1_def orOne_def)
  from one two rat(3,4) show ?thesis by simp
qed

theorem end_to_end_scenario_witness:
  "subtotal scenarioInvoice = 1000 \<and> fret scenarioInvoice = 100 \<and>
   incoterm scenarioInvoice = ''FOB'' \<and> totalWeightBrut scenarioInvoice = 500 \<and>
   items scenarioInvoice = [scenarioItem] \<and> regime scenarioItem = ''023'' \<and>
   hsCode scenarioItem = ''HS1'' \<and> weightNet scenarioItem = Some 500 \<and>
   totalPrice scenarioItem = 1000 \<and>
   calculateCustoms1 scenarioInvoice 11 = calculateCustoms2 scenarioInvoice 11 \<and>
   globalFretRatio2 scenarioInvoice 11 = 2.2 \<and>
   (case calculateCustoms2 scenarioInvoice 11 of
      Inl e \<Rightarrow> False
    | Inr res \<Rightarrow>
        res_totalVAD res = 14460.5 \<and>
        map (\<lambda>(rgm, h). (rgm, hs_hsCode h, hs_description h, hs_fobValueMAD h, hs_fretValueMAD h,
               hs_assuranceValueMAD h, hs_aconageValueMAD h, hs_totalVAD h)) (allGroups res) =
          [(''023'', ''HS1'', ''Goods'', 11000, 1100, 60.5, 2300, 14460.5)])"
  using end_to_end_scenario [of scenarioInvoice scenarioItem]
  by (simp add: scenarioInvoice_def scenarioItem_def allGroups_def)

subsection \<open>C10: inputs that the calculation does not read\<close>

text \<open>
  Claim C10. Two invoices that differ at most in the invoice-level insurance amount and
  in the quantity and unit price of their items (all other fields, the total price of
  every item among them, being equal) give the same result for the same exchange rate in
  both versions: the same report, or the same exception.
\<close>

theorem unused_inputs_noninterference:
  assumes "withoutUnusedInputs d = withoutUnusedInputs d'"
  shows "calculateCustoms1 d rate = calculateCustoms1 d' rate \<and>
         calculateCustoms2 d rate = calculateCustoms2 d' rate"
  using calculateCustoms_erase [of d rate] calculateCustoms_erase [of d' rate] assms by simp

theorem unused_inputs_noninterference_witness:
  "withoutUnusedInputs (exampleInvoice ''FOB'' 1000 (Some 500) (Some 250)) =
     withoutUnusedInputs exampleInvoiceEdited \<and>
   assurance (exampleInvoice ''FOB'' 1000 (Some 500) (Some 250)) = 20 \<and>
   assurance exampleInvoiceEdited = 999 \<and>
   map quantity (items (exampleInvoice ''FOB'' 1000 (Some 500) (Some 250))) = [100, 200, 12] \<and>
   map quantity (items exampleInvoiceEdited) = [1, 200, 0] \<and>
   map unitPrice (items (exampleInvoice ''FOB'' 1000 (Some 500) (Some 250))) = [10, 2, 10] \<and>
   map unitPrice (items exampleInvoiceEdited) = [1000, 2, 0] \<and>
   calculateCustoms1 exampleInvoiceEdited 10 =
     calculateCustoms1 (exampleInvoice ''FOB'' 1000 (Some 500) (Some 250)) 10 \<and>
   calculateCustoms2 exampleInvoiceEdited 10 = Inr exampleReport2_FOB"
proof -
  have same: "withoutUnusedInputs (exampleInvoice ''FOB'' 1000 (Some 500) (Some 250)) =
     withoutUnusedInputs exampleInvoiceEdited"
    by (simp add: withoutUnusedInputs_def eraseItem_def exampleInvoice_def
        exampleInvoiceEdited_def itemOranges_def itemWine_def itemPallets_def)
  have fields:
    "assurance (exampleInvoice ''FOB'' 1000 (Some 500) (Some 250)) = 20"
    "assurance exampleInvoiceEdited = 999"
    "map quantity (items (exampleInvoice ''FOB'' 1000 (Some 500) (Some 250))) = [100, 200, 12]"
    "map quantity (items exampleInvoiceEdited) = [1, 200, 0]"
    "map unitPrice (items (exampleInvoice ''FOB'' 1000 (Some 500) (Some 250))) = [10, 2, 10]"
    "map unitPrice (items exampleInvoiceEdited) = [1000, 2, 0]"
    by (simp_all add: exampleInvoice_def exampleInvoiceEdited_def itemOranges_def itemWine_def
        itemPallets_def)
  from unused_inputs_noninterference [OF same, of 10] same fields show ?thesis
    by (simp add: run_exampleReport2_FOB)
qed

end
